theory Spec2Isabelle
  imports Main
begin

section \<open>Data model\<close>

text \<open>
  Go's \<^verbatim>\<open>LOCALE\<close> is a named string type. A subtitle track carries a locale; a stream
  variant carries its hardsub locale, its audio locale and its subtitle tracks
  (\<^verbatim>\<open>stream.HardsubLocale\<close>, \<^verbatim>\<open>stream.AudioLocale\<close>, \<^verbatim>\<open>stream.Subtitles\<close>, as
  \<^verbatim>\<open>GetFormat\<close> reads them). A format carries \<^verbatim>\<open>format.Video.Resolution\<close>; the rest of
  its encoding metadata is the field \<open>format_meta\<close>.
\<close>

type_synonym LOCALE = string

record Subtitle =
  Locale :: LOCALE

record Stream =
  HardsubLocale :: LOCALE
  AudioLocale :: LOCALE
  Subtitles :: "Subtitle list"
  stream_id :: string

record Format =
  Video_Resolution :: string
  format_meta :: string

text \<open>
  A Go call either returns a value with a nil error, returns a non-nil error, or panics
  (a failed single-value type assertion, an index out of range). The error values of the
  package are \<^verbatim>\<open>*RequestError\<close> (the response with a message), the errors made with
  \<^verbatim>\<open>fmt.Errorf\<close>, and the transport's own errors, which are not \<^verbatim>\<open>*RequestError\<close>.
\<close>

record Response =
  StatusCode :: int
  Status :: string
  Body :: string

datatype error =
    RequestError Response string
  | Errorf string
  | TransportError string

datatype 'a result = Ok 'a | Err error | Panic

section \<open>Stream and format resolution (\<^verbatim>\<open>Episode.GetFormat\<close>)\<close>

text \<open>
  The inner loop of the variant search: it sets \<^verbatim>\<open>foundStream\<close> at the first subtitle
  track whose locale equals the requested one, so its outcome is whether there is one.
\<close>

fun subtitleLoop :: "LOCALE \<Rightarrow> Subtitle list \<Rightarrow> bool" where
  "subtitleLoop subtitle [] = False"
| "subtitleLoop subtitle (t # ts) =
     (if Locale t = subtitle then True else subtitleLoop subtitle ts)"

text \<open>
  The outer loop. Go's \<^verbatim>\<open>&&\<close> binds tighter than \<^verbatim>\<open>||\<close>, so the first test reads
  \<^verbatim>\<open>(hardsub && stream.HardsubLocale == subtitle) || (stream.HardsubLocale == "" && subtitle == "")\<close>.
\<close>

fun streamLoop :: "bool \<Rightarrow> LOCALE \<Rightarrow> Stream list \<Rightarrow> Stream option" where
  "streamLoop hardsub subtitle [] = None"
| "streamLoop hardsub subtitle (s # ss) =
     (if (hardsub \<and> HardsubLocale s = subtitle) \<or> (HardsubLocale s = [] \<and> subtitle = [])
      then Some s
      else if \<not> hardsub
        then (if subtitleLoop subtitle (Subtitles s) then Some s
              else streamLoop hardsub subtitle ss)
        else streamLoop hardsub subtitle ss)"


text \<open>
  \<^verbatim>\<open>strings.SplitN(s, "x", 2)\<close> of Go's standard library: the string itself when it has
  no \<^verbatim>\<open>x\<close>, otherwise what stands before the first \<^verbatim>\<open>x\<close> and everything after it.
\<close>

fun cutAt :: "char \<Rightarrow> string \<Rightarrow> (string \<times> string) option" where
  "cutAt c [] = None"
| "cutAt c (d # ds) =
     (if d = c then Some ([], ds)
      else (case cutAt c ds of None \<Rightarrow> None | Some (a, b) \<Rightarrow> Some (d # a, b)))"

definition SplitN_x_2 :: "string \<Rightarrow> string list" where
  "SplitN_x_2 s = (case cutAt (CHR ''x'') s of None \<Rightarrow> [s] | Some (a, b) \<Rightarrow> [a, b])"

text \<open>
  \<^verbatim>\<open>strconv.Atoi\<close> of Go's standard library, on a 64-bit \<^verbatim>\<open>int\<close>: an optional sign and
  then decimal digits only, at least one. On a syntax error the value is 0 (the caller
  drops the error); a number out of range is clamped to the nearest bound.
\<close>

definition isDigit :: "char \<Rightarrow> bool" where
  "isDigit c = (48 \<le> (of_char c :: nat) \<and> (of_char c :: nat) \<le> 57)"

fun digitsValue :: "nat \<Rightarrow> string \<Rightarrow> nat" where
  "digitsValue n [] = n"
| "digitsValue n (c # cs) = digitsValue (n * 10 + (of_char c - 48)) cs"

definition maxInt :: int where
  "maxInt = 9223372036854775807"

definition minInt :: int where
  "minInt = - 9223372036854775808"

definition Atoi :: "string \<Rightarrow> int" where
  "Atoi s =
     (let neg = (s \<noteq> [] \<and> hd s = CHR ''-'');
          ds = (if s \<noteq> [] \<and> (hd s = CHR ''-'' \<or> hd s = CHR ''+'') then tl s else s)
      in if ds = [] \<or> \<not> list_all isDigit ds then 0
         else (let n = int (digitsValue 0 ds)
               in if neg then (if n > - minInt then minInt else - n)
                  else (if n > maxInt then maxInt else n)))"

text \<open>Addition of two Go \<^verbatim>\<open>int\<close>s wraps around in 64 bits (two's complement).\<close>

definition addInt :: "int \<Rightarrow> int \<Rightarrow> int" where
  "addInt a b = (a + b - minInt) mod 18446744073709551616 + minInt"

text \<open>
  The three statements \<^verbatim>\<open>p := strings.SplitN(r, "x", 2); x, _ := strconv.Atoi(p[0]);
  y, _ := strconv.Atoi(p[1])\<close>: reading \<^verbatim>\<open>p[1]\<close> panics when the string has no \<^verbatim>\<open>x\<close>
  (\<open>None\<close> here).
\<close>

definition splitRes :: "string \<Rightarrow> (int \<times> int) option" where
  "splitRes r =
     (let p = SplitN_x_2 r
      in if length p < 2 then None else Some (Atoi (p ! 0), Atoi (p ! 1)))"

text \<open>
  The loop over the formats of the found stream, with the running \<^verbatim>\<open>res\<close> (\<open>None\<close> is
  nil), and the two statements after it. The \<^verbatim>\<open>continue\<close> of the first round skips the
  exact comparison of that round.
\<close>

fun formatLoop :: "string \<Rightarrow> Format option \<Rightarrow> Format list \<Rightarrow> Format result" where
  "formatLoop resolution res [] =
     (case res of
        Some r \<Rightarrow> Ok r
      | None \<Rightarrow> Err (Errorf ''no matching resolution found''))"
| "formatLoop resolution res (format # formats) =
     (if resolution = ''worst'' \<or> resolution = ''best'' then
        (case res of
           None \<Rightarrow> formatLoop resolution (Some format) formats
         | Some r \<Rightarrow>
            (case splitRes (Video_Resolution format) of
               None \<Rightarrow> Panic
             | Some (curResX, curResY) \<Rightarrow>
                (case splitRes (Video_Resolution r) of
                   None \<Rightarrow> Panic
                 | Some (resResX, resResY) \<Rightarrow>
                    (let res' =
                       (if resolution = ''worst'' \<and>
                           addInt curResX curResY < addInt resResX resResY then format
                        else if resolution = ''best'' \<and>
                           addInt curResX curResY > addInt resResX resResY then format
                        else r)
                     in if Video_Resolution format = resolution then Ok format
                        else formatLoop resolution (Some res') formats))))
      else if Video_Resolution format = resolution then Ok format
      else formatLoop resolution res formats)"


section \<open>The transport normalizer (\<^verbatim>\<open>request\<close>)\<close>

text \<open>
  What \<^verbatim>\<open>encoding/json\<close> decodes into an \<^verbatim>\<open>any\<close>: nil, a bool, a number (a float64
  that this package never reads, kept as its literal), a string, a \<^verbatim>\<open>[]any\<close> or a
  \<^verbatim>\<open>map[string]any\<close>. A map is an association list read with \<^const>\<open>map_of\<close>.
\<close>

datatype json =
    JNull
  | JBool bool
  | JNumber string
  | JString string
  | JArray "json list"
  | JObject "(string \<times> json) list"

text \<open>
  The comma-ok type assertions on the result of a map lookup (\<^verbatim>\<open>m[k].(string)\<close>): a
  missing key gives the nil interface, on which every assertion fails.
\<close>

fun asString :: "json option \<Rightarrow> string option" where
  "asString (Some (JString s)) = Some s"
| "asString _ = None"

fun asBool :: "json option \<Rightarrow> bool option" where
  "asBool (Some (JBool b)) = Some b"
| "asBool _ = None"

fun asArray :: "json option \<Rightarrow> json list option" where
  "asArray (Some (JArray xs)) = Some xs"
| "asArray _ = None"

fun asObject :: "json option \<Rightarrow> (string \<times> json) list option" where
  "asObject (Some (JObject kv)) = Some kv"
| "asObject _ = None"

record loginResponse =
  AccessToken :: string
  RefreshToken :: string
  ExpiresIn :: int
  TokenType :: string
  Scope :: string
  Country :: string
  AccountID :: string

record Request =
  Method :: string
  URL :: string
  Header :: "(string \<times> string) list"
  Cookies :: "(string \<times> string) list"
  Form :: "(string \<times> string) list"

text \<open>
  The world outside the package. \<open>Do\<close> is \<^verbatim>\<open>client.Do\<close>: what the client answers
  to a request, given the requests sent before it (a transport error, or a response).
  \<open>parseJSON\<close> is the JSON parser of \<^verbatim>\<open>encoding/json\<close> (the error text, or the decoded
  value). \<open>urlError\<close> is the error, if any, with which \<^verbatim>\<open>http.NewRequest\<close> refuses a URL.
\<close>

record env =
  Do :: "Request list \<Rightarrow> Request \<Rightarrow> string + Response"
  parseJSON :: "string \<Rightarrow> string + json"
  urlError :: "string \<Rightarrow> string option"
  decodeLogin :: "string \<Rightarrow> loginResponse"

text \<open>
  \<^verbatim>\<open>json.Unmarshal(data, &m)\<close> for \<^verbatim>\<open>var m map[string]any\<close>: an object becomes the map,
  \<^verbatim>\<open>null\<close> leaves the nil map (\<open>None\<close>), any other value is a type error.
\<close>

definition Unmarshal :: "env \<Rightarrow> string \<Rightarrow> string + (string \<times> json) list option" where
  "Unmarshal e data =
     (case parseJSON e data of
        Inl msg \<Rightarrow> Inl msg
      | Inr (JObject kv) \<Rightarrow> Inr (Some kv)
      | Inr JNull \<Rightarrow> Inr None
      | Inr (JBool b) \<Rightarrow>
          Inl ''json: cannot unmarshal bool into Go value of type map[string]interface {}''
      | Inr (JNumber n) \<Rightarrow>
          Inl ''json: cannot unmarshal number into Go value of type map[string]interface {}''
      | Inr (JString s) \<Rightarrow>
          Inl ''json: cannot unmarshal string into Go value of type map[string]interface {}''
      | Inr (JArray xs) \<Rightarrow>
          Inl ''json: cannot unmarshal array into Go value of type map[string]interface {}'')"

text \<open>Reading a key of a Go map that may be nil: \<^verbatim>\<open>v, ok := m[k]\<close>.\<close>

definition lookup :: "(string \<times> json) list option \<Rightarrow> string \<Rightarrow> json option" where
  "lookup m k = (case m of None \<Rightarrow> None | Some kv \<Rightarrow> map_of kv k)"

text \<open>The last statement of the block: \<^verbatim>\<open>if resp.StatusCode >= 400\<close>.\<close>

definition statusCheck :: "Response \<Rightarrow> Response result" where
  "statusCheck resp =
     (if StatusCode resp \<ge> 400 then Err (RequestError resp (Status resp)) else Ok resp)"

text \<open>
  The branch for a \<^verbatim>\<open>"code"\<close> key with a non-empty \<^verbatim>\<open>"context"\<close> list. Its four type
  assertions are of the single-value form, which panics when the value has another type
  (or the key is missing).
\<close>

definition contextError :: "Response \<Rightarrow> json \<Rightarrow> Response result" where
  "contextError resp first =
     (case asObject (Some first) of
        None \<Rightarrow> Panic
      | Some errField \<Rightarrow>
         (case (case asString (map_of errField ''message'') of
                  Some m \<Rightarrow> Some m
                | None \<Rightarrow> asString (map_of errField ''code'')) of
            None \<Rightarrow> Panic
          | Some code \<Rightarrow>
             (case asString (map_of errField ''field'') of
                None \<Rightarrow> Panic
              | Some field \<Rightarrow> Err (RequestError resp (code @ '' - '' @ field)))))"

text \<open>
  The body of \<^verbatim>\<open>if err == nil { ... }\<close> in \<^verbatim>\<open>request\<close>: the buffered body is parsed
  when it is not empty and the error shapes are tried in the order of the source.
\<close>

definition classify :: "env \<Rightarrow> Response \<Rightarrow> Response result" where
  "classify e resp =
     (if Body resp \<noteq> [] then
        (case Unmarshal e (Body resp) of
           Inl msg \<Rightarrow> Err (RequestError resp (''invalid json response: '' @ msg))
         | Inr errMap \<Rightarrow>
            (case lookup errMap ''error'' of
               Some val \<Rightarrow>
                 (case asString (Some val) of
                    Some errorAsString \<Rightarrow>
                      (case asString (lookup errMap ''code'') of
                         Some code \<Rightarrow>
                           Err (RequestError resp (errorAsString @ '' - '' @ code))
                       | None \<Rightarrow> Err (RequestError resp errorAsString))
                  | None \<Rightarrow>
                      (if asBool (Some val) = Some True then
                         (case asString (lookup errMap ''message'') of
                            Some msg \<Rightarrow> Err (RequestError resp msg)
                          | None \<Rightarrow> statusCheck resp)
                       else statusCheck resp))
             | None \<Rightarrow>
                 (case lookup errMap ''code'' of
                    Some c \<Rightarrow>
                      (case asArray (lookup errMap ''context'') of
                         Some (first # rest) \<Rightarrow> contextError resp first
                       | _ \<Rightarrow>
                          (case asString (lookup errMap ''message'') of
                             Some errMessage \<Rightarrow> Err (RequestError resp errMessage)
                           | None \<Rightarrow> statusCheck resp))
                  | None \<Rightarrow> statusCheck resp)))
      else statusCheck resp)"

text \<open>
  \<^verbatim>\<open>request(req, client)\<close>: the request is sent (and joins the requests sent so far); a
  transport error is returned as it is, a response is classified.
\<close>

definition request :: "env \<Rightarrow> Request \<Rightarrow> Request list \<Rightarrow> Response result \<times> Request list" where
  "request e req sent =
     (case Do e sent req of
        Inl err \<Rightarrow> (Err (TransportError err), sent @ [req])
      | Inr resp \<Rightarrow> (classify e resp, sent @ [req]))"


section \<open>The session (\<^verbatim>\<open>Crunchyroll\<close>) and the login\<close>

text \<open>
  The \<^verbatim>\<open>Crunchyroll\<close> struct with the fields of its \<^verbatim>\<open>Config\<close>; the client is the
  \<^typ>\<open>env\<close>.
\<close>

record Crunchyroll =
  Crunchyroll_Locale :: LOCALE
  Crunchyroll_RefreshToken :: string
  Config_TokenType :: string
  Config_AccessToken :: string
  Config_Bucket :: string
  Config_CountryCode :: string
  Config_Premium :: bool
  Config_Channel :: string
  Config_Policy :: string
  Config_Signature :: string
  Config_KeyPairID :: string
  Config_AccountID :: string
  Config_ExternalID :: string
  Config_MaturityRating :: string
  cache :: bool

definition IsCaching :: "Crunchyroll \<Rightarrow> bool" where
  "IsCaching c = cache c"

definition SetCaching :: "bool \<Rightarrow> Crunchyroll \<Rightarrow> Crunchyroll" where
  "SetCaching caching c = c\<lparr>cache := caching\<rparr>"

text \<open>
  \<^verbatim>\<open>http.NewRequest\<close> with a method of \<^verbatim>\<open>net/http\<close>'s constants: it fails only on a URL
  it cannot parse. The form is the request's body before \<^verbatim>\<open>url.Values.Encode\<close>.
\<close>

definition NewRequest ::
  "env \<Rightarrow> string \<Rightarrow> string \<Rightarrow> (string \<times> string) list \<Rightarrow> error + Request" where
  "NewRequest e method endpoint form =
     (case urlError e endpoint of
        Some err \<Rightarrow> Inl (Errorf err)
      | None \<Rightarrow>
          Inr \<lparr>Method = method, URL = endpoint, Header = [], Cookies = [], Form = form\<rparr>)"

text \<open>\<^verbatim>\<open>req.Header.Set\<close> replaces the values of a key, \<^verbatim>\<open>req.Header.Add\<close> appends one.\<close>

definition HeaderSet :: "string \<Rightarrow> string \<Rightarrow> Request \<Rightarrow> Request" where
  "HeaderSet k v req = req\<lparr>Header := filter (\<lambda>kv. fst kv \<noteq> k) (Header req) @ [(k, v)]\<rparr>"

definition HeaderAdd :: "string \<Rightarrow> string \<Rightarrow> Request \<Rightarrow> Request" where
  "HeaderAdd k v req = req\<lparr>Header := Header req @ [(k, v)]\<rparr>"

definition AddCookie :: "string \<Rightarrow> string \<Rightarrow> Request \<Rightarrow> Request" where
  "AddCookie k v req = req\<lparr>Cookies := Cookies req @ [(k, v)]\<rparr>"

definition requestFull ::
  "env \<Rightarrow> Crunchyroll \<Rightarrow> Request \<Rightarrow> Request list \<Rightarrow> Response result \<times> Request list" where
  "requestFull e c req sent =
     request e (HeaderAdd ''Authorization'' (Config_TokenType c @ '' '' @ Config_AccessToken c) req)
       sent"

definition Crunchyroll_request ::
  "env \<Rightarrow> Crunchyroll \<Rightarrow> string \<Rightarrow> string \<Rightarrow> Request list \<Rightarrow> Response result \<times> Request list"
  where
  "Crunchyroll_request e c endpoint method sent =
     (case NewRequest e method endpoint [] of
        Inl err \<Rightarrow> (Err err, sent)
      | Inr req \<Rightarrow> requestFull e c req sent)"

text \<open>
  \<^verbatim>\<open>json.NewDecoder(resp.Body).Decode(&jsonBody)\<close> with its error dropped, on a body that
  \<^verbatim>\<open>request\<close> has accepted (empty, or one JSON value): an empty body leaves the map as it
  was, \<^verbatim>\<open>null\<close> sets it to nil, and an object is decoded into the map at hand, whose other
  keys stay.
\<close>

definition Decode ::
  "env \<Rightarrow> string \<Rightarrow> (string \<times> json) list option \<Rightarrow> (string \<times> json) list option" where
  "Decode e body jsonBody =
     (if body = [] then jsonBody
      else (case Unmarshal e body of
              Inl msg \<Rightarrow> jsonBody
            | Inr None \<Rightarrow> None
            | Inr (Some kv) \<Rightarrow>
                Some (kv @ (case jsonBody of None \<Rightarrow> [] | Some old \<Rightarrow> old))))"

definition TrimPrefix :: "string \<Rightarrow> string \<Rightarrow> string" where
  "TrimPrefix s pre = (if take (length pre) s = pre then drop (length pre) s else s)"

definition HasSuffix :: "string \<Rightarrow> string \<Rightarrow> bool" where
  "HasSuffix s suf = (length suf \<le> length s \<and> drop (length s - length suf) s = suf)"

text \<open>
  The statements of \<^verbatim>\<open>postLogin\<close> between its calls: single-value type assertions on
  the decoded map, each of which panics (\<open>None\<close>) on a missing key or another type.
\<close>

definition readIndex :: "(string \<times> json) list option \<Rightarrow> Crunchyroll \<Rightarrow> Crunchyroll option" where
  "readIndex jsonBody crunchy =
     (case asObject (lookup jsonBody ''cms'') of
        None \<Rightarrow> None
      | Some cms \<Rightarrow>
         (case asString (map_of cms ''bucket'') of
            None \<Rightarrow> None
          | Some bucket \<Rightarrow>
             (case asString (map_of cms ''policy'') of
                None \<Rightarrow> None
              | Some policy \<Rightarrow>
                 (case asString (map_of cms ''signature'') of
                    None \<Rightarrow> None
                  | Some signature \<Rightarrow>
                     (case asString (map_of cms ''key_pair_id'') of
                        None \<Rightarrow> None
                      | Some keyPairID \<Rightarrow>
                          Some (crunchy
                            \<lparr>Config_Bucket := TrimPrefix bucket ''/'',
                             Config_Premium := HasSuffix (TrimPrefix bucket ''/'') ''crunchyroll'',
                             Config_Policy := policy,
                             Config_Signature := signature,
                             Config_KeyPairID := keyPairID\<rparr>))))))"

text \<open>
  \<^verbatim>\<open>postLogin\<close>. \<open>newSession\<close> is the struct as the first statements of the function
  fill it; the three endpoints are its string constants.
\<close>

definition newSession :: "loginResponse \<Rightarrow> LOCALE \<Rightarrow> Crunchyroll" where
  "newSession loginResp lang =
     \<lparr>Crunchyroll_Locale = lang,
      Crunchyroll_RefreshToken = RefreshToken loginResp,
      Config_TokenType = TokenType loginResp,
      Config_AccessToken = AccessToken loginResp,
      Config_Bucket = [],
      Config_CountryCode = Country loginResp,
      Config_Premium = False,
      Config_Channel = [],
      Config_Policy = [],
      Config_Signature = [],
      Config_KeyPairID = [],
      Config_AccountID = AccountID loginResp,
      Config_ExternalID = [],
      Config_MaturityRating = [],
      cache = True\<rparr>"

definition indexEndpoint :: string where
  "indexEndpoint = ''https://beta-api.crunchyroll.com/index/v2''"

definition accountEndpoint :: string where
  "accountEndpoint = ''https://beta-api.crunchyroll.com/accounts/v1/me''"

definition profileEndpoint :: string where
  "profileEndpoint = ''https://beta-api.crunchyroll.com/accounts/v1/me/profile''"

definition postLogin ::
  "env \<Rightarrow> loginResponse \<Rightarrow> LOCALE \<Rightarrow> Request list \<Rightarrow> Crunchyroll result \<times> Request list" where
  "postLogin e loginResp lang sent =
     (let crunchy = newSession loginResp lang
      in case Crunchyroll_request e crunchy indexEndpoint ''GET'' sent of
           (Panic, sent1) \<Rightarrow> (Panic, sent1)
         | (Err err, sent1) \<Rightarrow> (Err err, sent1)
         | (Ok resp1, sent1) \<Rightarrow>
            (let jsonBody1 = Decode e (Body resp1) None
             in case readIndex jsonBody1 crunchy of
                  None \<Rightarrow> (Panic, sent1)
                | Some crunchy1 \<Rightarrow>
                   (case Crunchyroll_request e crunchy1 accountEndpoint ''GET'' sent1 of
                      (Panic, sent2) \<Rightarrow> (Panic, sent2)
                    | (Err err, sent2) \<Rightarrow> (Err err, sent2)
                    | (Ok resp2, sent2) \<Rightarrow>
                       (let jsonBody2 = Decode e (Body resp2) jsonBody1
                        in case asString (lookup jsonBody2 ''external_id'') of
                             None \<Rightarrow> (Panic, sent2)
                           | Some externalID \<Rightarrow>
                              (case Crunchyroll_request e
                                      (crunchy1\<lparr>Config_ExternalID := externalID\<rparr>)
                                      profileEndpoint ''GET'' sent2 of
                                 (Panic, sent3) \<Rightarrow> (Panic, sent3)
                               | (Err err, sent3) \<Rightarrow> (Err err, sent3)
                               | (Ok resp3, sent3) \<Rightarrow>
                                  (case asString (lookup (Decode e (Body resp3) jsonBody2)
                                                    ''maturity_rating'') of
                                     None \<Rightarrow> (Panic, sent3)
                                   | Some maturityRating \<Rightarrow>
                                       (Ok (crunchy1\<lparr>Config_ExternalID := externalID,
                                                     Config_MaturityRating := maturityRating\<rparr>),
                                        sent3)))))))"

text \<open>
  \<^verbatim>\<open>LoginWithRefreshToken\<close>. The assertion \<^verbatim>\<open>err.(*RequestError)\<close> is of the single-value
  form: it panics on an error of another dynamic type. \<open>refreshRequest\<close> and
  \<open>fallbackRequest\<close> are the two requests as the function builds them when
  \<^verbatim>\<open>http.NewRequest\<close> accepts the endpoint.
\<close>

definition basicA :: string where
  "basicA = ''Basic aHJobzlxM2F3dnNrMjJ1LXRzNWE6cHROOURteXRBU2Z6QjZvbXVsSzh6cUxzYTczVE1TY1k=''"

definition basicB :: string where
  "basicB = ''Basic bm9haWhkZXZtXzZpeWcwYThsMHE6''"

definition tokenEndpoint :: string where
  "tokenEndpoint = ''https://beta-api.crunchyroll.com/auth/v1/token''"

definition refreshRequest :: "string \<Rightarrow> Request" where
  "refreshRequest refreshToken =
     HeaderSet ''Content-Type'' ''application/x-www-form-urlencoded''
       (HeaderSet ''Authorization'' basicA
         \<lparr>Method = ''POST'', URL = tokenEndpoint, Header = [], Cookies = [],
          Form = [(''grant_type'', ''refresh_token''), (''refresh_token'', refreshToken),
                  (''scope'', ''offline_access'')]\<rparr>)"

definition fallbackRequest :: "string \<Rightarrow> Request" where
  "fallbackRequest refreshToken =
     AddCookie ''etp_rt'' refreshToken
       (HeaderSet ''Content-Type'' ''application/x-www-form-urlencoded''
         (HeaderSet ''Authorization'' basicB
           \<lparr>Method = ''POST'', URL = tokenEndpoint, Header = [], Cookies = [],
            Form = [(''grant_type'', ''etp_rt_cookie''), (''scope'', ''offline_access'')]\<rparr>))"

definition LoginWithRefreshToken ::
  "env \<Rightarrow> string \<Rightarrow> LOCALE \<Rightarrow> Request list \<Rightarrow> Crunchyroll result \<times> Request list" where
  "LoginWithRefreshToken e refreshToken lang sent =
     (case NewRequest e ''POST'' tokenEndpoint
             [(''grant_type'', ''refresh_token''), (''refresh_token'', refreshToken),
              (''scope'', ''offline_access'')] of
        Inl err \<Rightarrow> (Err err, sent)
      | Inr req0 \<Rightarrow>
         (case request e
                 (HeaderSet ''Content-Type'' ''application/x-www-form-urlencoded''
                   (HeaderSet ''Authorization'' basicA req0)) sent of
            (Panic, sent1) \<Rightarrow> (Panic, sent1)
          | (Ok resp, sent1) \<Rightarrow> postLogin e (decodeLogin e (Body resp)) lang sent1
          | (Err err, sent1) \<Rightarrow>
             (case err of
                RequestError r m \<Rightarrow>
                  (if StatusCode r = 400 then
                     (case NewRequest e ''POST'' tokenEndpoint
                             [(''grant_type'', ''etp_rt_cookie''), (''scope'', ''offline_access'')] of
                        Inl err2 \<Rightarrow> (Err err2, sent1)
                      | Inr req1 \<Rightarrow>
                         (case request e
                                 (AddCookie ''etp_rt'' refreshToken
                                   (HeaderSet ''Content-Type'' ''application/x-www-form-urlencoded''
                                     (HeaderSet ''Authorization'' basicB req1))) sent1 of
                            (Panic, sent2) \<Rightarrow> (Panic, sent2)
                          | (Err err2, sent2) \<Rightarrow> (Err err2, sent2)
                          | (Ok resp2, sent2) \<Rightarrow>
                              postLogin e (decodeLogin e (Body resp2)) lang sent2))
                   else (Err err, sent1))
              | Errorf m \<Rightarrow> (Panic, sent1)
              | TransportError m \<Rightarrow> (Panic, sent1))))"

section \<open>Cached child lists (\<^verbatim>\<open>Streams\<close>, \<^verbatim>\<open>Seasons\<close>, \<^verbatim>\<open>MovieListing\<close>)\<close>

text \<open>
  A Go slice is nil (\<open>None\<close>) or holds elements. The objects keep their child list in
  the field \<^verbatim>\<open>children\<close>; the session they point to is passed beside them.
\<close>

definition elems :: "'a list option \<Rightarrow> 'a list" where
  "elems xs = (case xs of None \<Rightarrow> [] | Some ys \<Rightarrow> ys)"

record Episode =
  Episode_ID :: string
  StreamID :: string
  Episode_children :: "Stream list option"

record 'a Series =
  Series_ID :: string
  Series_children :: "'a list option"

record 'a Movie =
  Movie_ID :: string
  Movie_children :: "'a list option"

definition cmsQuery :: "Crunchyroll \<Rightarrow> string" where
  "cmsQuery c =
     ''&locale='' @ Crunchyroll_Locale c @ ''&Signature='' @ Config_Signature c @
     ''&Policy='' @ Config_Policy c @ ''&Key-Pair-Id='' @ Config_KeyPairID c"

text \<open>
  \<^verbatim>\<open>Episode.Streams\<close>. \<^verbatim>\<open>fromVideoStreams\<close> is not among the sources at hand: it is the
  parameter \<open>fromVideoStreams\<close>, which sends requests and returns the streams or an error.
\<close>

definition streamsEndpoint :: "Crunchyroll \<Rightarrow> Episode \<Rightarrow> string" where
  "streamsEndpoint c ep =
     ''https://www.crunchyroll.com/cms/v2/'' @ Config_Bucket c @ ''/videos/'' @ StreamID ep @
     ''/streams?locale='' @ Crunchyroll_Locale c @ ''&Signature='' @ Config_Signature c @
     ''&Policy='' @ Config_Policy c @ ''&Key-Pair-Id='' @ Config_KeyPairID c"

definition Streams ::
  "(Crunchyroll \<Rightarrow> string \<Rightarrow> Request list \<Rightarrow> Stream list option result \<times> Request list) \<Rightarrow>
   Crunchyroll \<Rightarrow> Episode \<Rightarrow> Request list \<Rightarrow>
   Stream list option result \<times> Episode \<times> Request list" where
  "Streams fromVideoStreams c ep sent =
     (case Episode_children ep of
        Some children \<Rightarrow> (Ok (Some children), ep, sent)
      | None \<Rightarrow>
         (case fromVideoStreams c (streamsEndpoint c ep) sent of
            (Panic, sent1) \<Rightarrow> (Panic, ep, sent1)
          | (Err err, sent1) \<Rightarrow> (Err err, ep, sent1)
          | (Ok streams, sent1) \<Rightarrow>
              (Ok streams, (if cache c then ep\<lparr>Episode_children := streams\<rparr> else ep), sent1)))"

text \<open>
  The loop over \<^verbatim>\<open>jsonBody["items"]\<close> in \<^verbatim>\<open>Seasons\<close> and \<^verbatim>\<open>MovieListing\<close>:
  \<^verbatim>\<open>decodeMapToStruct\<close> (not among the sources at hand) is the parameter \<open>decodeItem\<close>;
  the result slice starts nil and grows by \<^verbatim>\<open>append\<close>.
\<close>

fun itemsLoop ::
  "(json \<Rightarrow> error + 'a) \<Rightarrow> json list \<Rightarrow> 'a list option \<Rightarrow> error + 'a list option" where
  "itemsLoop decodeItem [] acc = Inr acc"
| "itemsLoop decodeItem (item # items) acc =
     (case decodeItem item of
        Inl err \<Rightarrow> Inl err
      | Inr x \<Rightarrow> itemsLoop decodeItem items (Some (elems acc @ [x])))"

definition fetchItems ::
  "env \<Rightarrow> (json \<Rightarrow> error + 'a) \<Rightarrow> Crunchyroll \<Rightarrow> string \<Rightarrow> Request list \<Rightarrow>
   'a list option result \<times> Request list" where
  "fetchItems e decodeItem c endpoint sent =
     (case Crunchyroll_request e c endpoint ''GET'' sent of
        (Panic, sent1) \<Rightarrow> (Panic, sent1)
      | (Err err, sent1) \<Rightarrow> (Err err, sent1)
      | (Ok resp, sent1) \<Rightarrow>
         (case asArray (lookup (Decode e (Body resp) None) ''items'') of
            None \<Rightarrow> (Panic, sent1)
          | Some items \<Rightarrow>
             (case itemsLoop decodeItem items None of
                Inl err \<Rightarrow> (Err err, sent1)
              | Inr xs \<Rightarrow> (Ok xs, sent1))))"

definition seasonsEndpoint :: "Crunchyroll \<Rightarrow> 'a Series \<Rightarrow> string" where
  "seasonsEndpoint c s =
     ''https://www.crunchyroll.com/cms/v2/'' @ Config_Bucket c @ ''/seasons?series_id='' @
     Series_ID s @ cmsQuery c"

definition moviesEndpoint :: "Crunchyroll \<Rightarrow> 'a Movie \<Rightarrow> string" where
  "moviesEndpoint c m =
     ''https://www.crunchyroll.com/cms/v2/'' @ Config_Bucket c @ ''/movies?movie_listing_id='' @
     Movie_ID m @ cmsQuery c"

definition Seasons ::
  "env \<Rightarrow> (json \<Rightarrow> error + 'a) \<Rightarrow> Crunchyroll \<Rightarrow> 'a Series \<Rightarrow> Request list \<Rightarrow>
   'a list option result \<times> 'a Series \<times> Request list" where
  "Seasons e decodeItem c s sent =
     (case Series_children s of
        Some children \<Rightarrow> (Ok (Some children), s, sent)
      | None \<Rightarrow>
         (case fetchItems e decodeItem c (seasonsEndpoint c s) sent of
            (Panic, sent1) \<Rightarrow> (Panic, s, sent1)
          | (Err err, sent1) \<Rightarrow> (Err err, s, sent1)
          | (Ok seasons, sent1) \<Rightarrow>
              (Ok seasons, (if cache c then s\<lparr>Series_children := seasons\<rparr> else s), sent1)))"

definition MovieListing ::
  "env \<Rightarrow> (json \<Rightarrow> error + 'a) \<Rightarrow> Crunchyroll \<Rightarrow> 'a Movie \<Rightarrow> Request list \<Rightarrow>
   'a list option result \<times> 'a Movie \<times> Request list" where
  "MovieListing e decodeItem c m sent =
     (case Movie_children m of
        Some children \<Rightarrow> (Ok (Some children), m, sent)
      | None \<Rightarrow>
         (case fetchItems e decodeItem c (moviesEndpoint c m) sent of
            (Panic, sent1) \<Rightarrow> (Panic, m, sent1)
          | (Err err, sent1) \<Rightarrow> (Err err, m, sent1)
          | (Ok movieListings, sent1) \<Rightarrow>
              (Ok movieListings,
               (if cache c then m\<lparr>Movie_children := movieListings\<rparr> else m), sent1)))"

text \<open>
  \<^verbatim>\<open>Episode.GetFormat\<close>. \<^verbatim>\<open>Stream.Formats\<close> is not among the sources at hand: it is the
  parameter \<open>Formats\<close>. \<open>afterStreamLoop\<close> is the function's text after the loop over
  the streams, from \<^verbatim>\<open>if foundStream == nil\<close> on.
\<close>

definition afterStreamLoop ::
  "(Stream \<Rightarrow> Request list \<Rightarrow> Format list option result \<times> Request list) \<Rightarrow>
   string \<Rightarrow> Stream option \<Rightarrow> Request list \<Rightarrow> Format result \<times> Request list" where
  "afterStreamLoop Formats resolution foundStream sent =
     (case foundStream of
        None \<Rightarrow> (Err (Errorf ''no matching stream found''), sent)
      | Some stream \<Rightarrow>
         (case Formats stream sent of
            (Panic, sent1) \<Rightarrow> (Panic, sent1)
          | (Err err, sent1) \<Rightarrow> (Err err, sent1)
          | (Ok formats, sent1) \<Rightarrow> (formatLoop resolution None (elems formats), sent1)))"

definition GetFormat ::
  "(Crunchyroll \<Rightarrow> string \<Rightarrow> Request list \<Rightarrow> Stream list option result \<times> Request list) \<Rightarrow>
   (Stream \<Rightarrow> Request list \<Rightarrow> Format list option result \<times> Request list) \<Rightarrow>
   Crunchyroll \<Rightarrow> Episode \<Rightarrow> string \<Rightarrow> LOCALE \<Rightarrow> bool \<Rightarrow> Request list \<Rightarrow>
   Format result \<times> Episode \<times> Request list" where
  "GetFormat fromVideoStreams Formats c ep resolution subtitle hardsub sent =
     (case Streams fromVideoStreams c ep sent of
        (Panic, ep1, sent1) \<Rightarrow> (Panic, ep1, sent1)
      | (Err err, ep1, sent1) \<Rightarrow> (Err err, ep1, sent1)
      | (Ok streams, ep1, sent1) \<Rightarrow>
         (case afterStreamLoop Formats resolution
                 (streamLoop hardsub subtitle (elems streams)) sent1 of
            (r, sent2) \<Rightarrow> (r, ep1, sent2)))"


section \<open>The ranking of formats, stated on its own\<close>

text \<open>
  The key that the loop of \<^verbatim>\<open>GetFormat\<close> compares, \<^verbatim>\<open>curResX+curResY\<close>, as a function
  of the format, and the running candidate that the loop keeps for \<^verbatim>\<open>"best"\<close> and for
  \<^verbatim>\<open>"worst"\<close> when no format panics.
\<close>

definition resKey :: "Format \<Rightarrow> int" where
  "resKey f = (case splitRes (Video_Resolution f) of None \<Rightarrow> 0 | Some (x, y) \<Rightarrow> addInt x y)"

fun pickBest :: "Format \<Rightarrow> Format list \<Rightarrow> Format" where
  "pickBest cur [] = cur"
| "pickBest cur (f # fs) = pickBest (if resKey f > resKey cur then f else cur) fs"

fun pickWorst :: "Format \<Rightarrow> Format list \<Rightarrow> Format" where
  "pickWorst cur [] = cur"
| "pickWorst cur (f # fs) = pickWorst (if resKey f < resKey cur then f else cur) fs"

text \<open>
  A resolution string that parses as \<^verbatim>\<open>WIDTHxHEIGHT\<close> integers: both sides of the first
  \<^verbatim>\<open>x\<close> are accepted by \<^verbatim>\<open>strconv.Atoi\<close> without an error (an optional sign, digits, in
  range).
\<close>

definition atoiOk :: "string \<Rightarrow> bool" where
  "atoiOk s =
     (let ds = (if s \<noteq> [] \<and> (hd s = CHR ''-'' \<or> hd s = CHR ''+'') then tl s else s)
      in ds \<noteq> [] \<and> list_all isDigit ds \<and>
         (if s \<noteq> [] \<and> hd s = CHR ''-'' then int (digitsValue 0 ds) \<le> - minInt
          else int (digitsValue 0 ds) \<le> maxInt))"

definition parsesRes :: "string \<Rightarrow> bool" where
  "parsesRes r =
     (case cutAt (CHR ''x'') r of None \<Rightarrow> False | Some (w, h) \<Rightarrow> atoiOk w \<and> atoiOk h)"

section \<open>The documented error shapes, stated on their own\<close>

text \<open>
  The four shapes of an error body in the words of the specification, on the decoded
  map: a string \<^verbatim>\<open>"error"\<close>; a boolean \<^verbatim>\<open>"error"\<close> that is true, with a string
  \<^verbatim>\<open>"message"\<close>; else (no key \<^verbatim>\<open>"error"\<close>) a key \<^verbatim>\<open>"code"\<close> with a non-empty list
  \<^verbatim>\<open>"context"\<close>; else a key \<^verbatim>\<open>"code"\<close> with a string \<^verbatim>\<open>"message"\<close>.
\<close>

definition shapeErrorString :: "(string \<times> json) list option \<Rightarrow> bool" where
  "shapeErrorString m = (asString (lookup m ''error'') \<noteq> None)"

definition shapeErrorFlag :: "(string \<times> json) list option \<Rightarrow> bool" where
  "shapeErrorFlag m =
     (lookup m ''error'' = Some (JBool True) \<and> asString (lookup m ''message'') \<noteq> None)"

definition shapeCodeContext :: "(string \<times> json) list option \<Rightarrow> bool" where
  "shapeCodeContext m =
     (lookup m ''error'' = None \<and> lookup m ''code'' \<noteq> None \<and>
      (case asArray (lookup m ''context'') of None \<Rightarrow> False | Some xs \<Rightarrow> xs \<noteq> []))"

definition shapeCodeMessage :: "(string \<times> json) list option \<Rightarrow> bool" where
  "shapeCodeMessage m =
     (lookup m ''error'' = None \<and> lookup m ''code'' \<noteq> None \<and>
      asString (lookup m ''message'') \<noteq> None)"

section \<open>Example data\<close>

definition stream_plain :: Stream where
  "stream_plain =
     \<lparr>HardsubLocale = [], AudioLocale = ''ja-JP'', Subtitles = [], stream_id = ''plain''\<rparr>"

definition stream_soft :: Stream where
  "stream_soft =
     \<lparr>HardsubLocale = [], AudioLocale = ''ja-JP'',
      Subtitles = [\<lparr>Locale = ''en-US''\<rparr>, \<lparr>Locale = ''de-DE''\<rparr>], stream_id = ''soft''\<rparr>"

definition stream_hard_de :: Stream where
  "stream_hard_de =
     \<lparr>HardsubLocale = ''de-DE'', AudioLocale = ''ja-JP'', Subtitles = [],
      stream_id = ''hard-de''\<rparr>"

definition example_session :: Crunchyroll where
  "example_session =
     \<lparr>Crunchyroll_Locale = ''en-US'', Crunchyroll_RefreshToken = ''rt'',
      Config_TokenType = ''Bearer'', Config_AccessToken = ''at'',
      Config_Bucket = ''US/M2/crunchyroll'', Config_CountryCode = ''US'',
      Config_Premium = True, Config_Channel = [], Config_Policy = ''pol'',
      Config_Signature = ''sig'', Config_KeyPairID = ''kp'', Config_AccountID = ''acc'',
      Config_ExternalID = ''ext'', Config_MaturityRating = ''M2'', cache = True\<rparr>"

definition example_episode :: Episode where
  "example_episode = \<lparr>Episode_ID = ''E1'', StreamID = ''S1'', Episode_children = None\<rparr>"

text \<open>
  A \<^verbatim>\<open>fromVideoStreams\<close> that answers with the given streams, and a \<^verbatim>\<open>Formats\<close> that
  answers with formats of the given resolutions, each labelled with its stream.
\<close>

definition serveStreams ::
  "Stream list \<Rightarrow> Crunchyroll \<Rightarrow> string \<Rightarrow> Request list \<Rightarrow>
   Stream list option result \<times> Request list" where
  "serveStreams ss c endpoint sent =
     (Ok (Some ss),
      sent @ [\<lparr>Method = ''GET'', URL = endpoint, Header = [], Cookies = [], Form = []\<rparr>])"

definition serveFormats ::
  "string list \<Rightarrow> Stream \<Rightarrow> Request list \<Rightarrow> Format list option result \<times> Request list" where
  "serveFormats rs st sent =
     (Ok (Some (map (\<lambda>r. \<lparr>Video_Resolution = r, format_meta = stream_id st\<rparr>) rs)), sent)"

text \<open>
  Bodies of responses, and a parser that knows them (every other text is refused as
  \<^verbatim>\<open>encoding/json\<close> refuses a text that starts with \<^verbatim>\<open><\<close>).
\<close>

definition example_parseJSON :: "string \<Rightarrow> string + json" where
  "example_parseJSON body =
     (if body = ''{\"error\":\"invalid_grant\",\"code\":\"auth.token\"}'' then
        Inr (JObject [(''error'', JString ''invalid_grant''), (''code'', JString ''auth.token'')])
      else if body = ''{\"error\":\"invalid_grant\"}'' then
        Inr (JObject [(''error'', JString ''invalid_grant'')])
      else if body = ''{\"error\":true,\"message\":\"bad session\"}'' then
        Inr (JObject [(''error'', JBool True), (''message'', JString ''bad session'')])
      else if body = ''{\"error\":true,\"code\":\"bad_session\"}'' then
        Inr (JObject [(''error'', JBool True), (''code'', JString ''bad_session'')])
      else if body = ''{\"code\":\"invalid\",\"context\":[{\"message\":\"too short\",\"field\":\"title\"}]}'' then
        Inr (JObject [(''code'', JString ''invalid''),
               (''context'', JArray [JObject [(''message'', JString ''too short''),
                                                 (''field'', JString ''title'')]])])
      else if body = ''{\"code\":\"invalid\",\"context\":[{\"code\":\"length\",\"field\":\"title\"}]}'' then
        Inr (JObject [(''code'', JString ''invalid''),
               (''context'', JArray [JObject [(''code'', JString ''length''),
                                                 (''field'', JString ''title'')]])])
      else if body = ''{\"code\":\"invalid\",\"context\":[1]}'' then
        Inr (JObject [(''code'', JString ''invalid''), (''context'', JArray [JNumber ''1''])])
      else if body = ''{\"code\":\"invalid\",\"context\":[{\"message\":\"too short\"}]}'' then
        Inr (JObject [(''code'', JString ''invalid''),
               (''context'', JArray [JObject [(''message'', JString ''too short'')]])])
      else if body = ''{\"code\":\"invalid\",\"context\":[{\"field\":\"title\"}]}'' then
        Inr (JObject [(''code'', JString ''invalid''),
               (''context'', JArray [JObject [(''field'', JString ''title'')]])])
      else if body = ''{\"code\":\"not_found\",\"message\":\"no such series\"}'' then
        Inr (JObject [(''code'', JString ''not_found''), (''message'', JString ''no such series'')])
      else if body = ''{\"items\":[]}'' then
        Inr (JObject [(''items'', JArray [])])
      else if body = ''{\"access_token\":\"at\",\"token_type\":\"Bearer\"}'' then
        Inr (JObject [(''access_token'', JString ''at''), (''token_type'', JString ''Bearer'')])
      else if body = ''{\"cms\":{\"bucket\":\"/US/M2/crunchyroll\",\"policy\":\"pol\",\"signature\":\"sig\",\"key_pair_id\":\"kp\"}}'' then
        Inr (JObject [(''cms'', JObject [(''bucket'', JString ''/US/M2/crunchyroll''),
               (''policy'', JString ''pol''), (''signature'', JString ''sig''),
               (''key_pair_id'', JString ''kp'')])])
      else if body = ''{\"external_id\":\"ext\"}'' then
        Inr (JObject [(''external_id'', JString ''ext'')])
      else if body = ''{\"maturity_rating\":\"M2\"}'' then
        Inr (JObject [(''maturity_rating'', JString ''M2'')])
      else Inl ''invalid character '<' looking for beginning of value'')"

definition example_decodeLogin :: "string \<Rightarrow> loginResponse" where
  "example_decodeLogin body =
     (if body = ''{\"access_token\":\"at\",\"token_type\":\"Bearer\"}'' then
        \<lparr>AccessToken = ''at'', RefreshToken = [], ExpiresIn = 0, TokenType = ''Bearer'',
         Scope = [], Country = [], AccountID = []\<rparr>
      else
        \<lparr>AccessToken = [], RefreshToken = [], ExpiresIn = 0, TokenType = [],
         Scope = [], Country = [], AccountID = []\<rparr>)"

text \<open>A world whose client is \<open>d\<close>, and a client that answers every request alike.\<close>

definition example_env :: "(Request list \<Rightarrow> Request \<Rightarrow> string + Response) \<Rightarrow> env" where
  "example_env d =
     \<lparr>Do = d, parseJSON = example_parseJSON, urlError = (\<lambda>u. None),
      decodeLogin = example_decodeLogin\<rparr>"

definition answer :: "int \<Rightarrow> string \<Rightarrow> string \<Rightarrow> Response" where
  "answer code line body = \<lparr>StatusCode = code, Status = line, Body = body\<rparr>"

definition always :: "Response \<Rightarrow> Request list \<Rightarrow> Request \<Rightarrow> string + Response" where
  "always resp sent req = Inr resp"

text \<open>
  A client that cannot reach the service, and a client that gives its answers in turn,
  one per request.
\<close>

definition refuse :: "Request list \<Rightarrow> Request \<Rightarrow> string + Response" where
  "refuse sent req = Inl ''dial tcp: connect: connection refused''"

definition scripted ::
  "(string + Response) list \<Rightarrow> Request list \<Rightarrow> Request \<Rightarrow> string + Response" where
  "scripted answers sent req =
     (if length sent < length answers then answers ! length sent
      else Inl ''EOF'')"

definition example_login :: loginResponse where
  "example_login =
     \<lparr>AccessToken = ''at'', RefreshToken = ''rt'', ExpiresIn = 300, TokenType = ''Bearer'',
      Scope = ''offline_access'', Country = ''US'', AccountID = ''acc''\<rparr>"

definition index_answer :: Response where
  "index_answer =
     answer 200 ''200 OK''
       ''{\"cms\":{\"bucket\":\"/US/M2/crunchyroll\",\"policy\":\"pol\",\"signature\":\"sig\",\"key_pair_id\":\"kp\"}}''"

definition account_answer :: Response where
  "account_answer = answer 200 ''200 OK'' ''{\"external_id\":\"ext\"}''"

definition profile_answer :: Response where
  "profile_answer = answer 200 ''200 OK'' ''{\"maturity_rating\":\"M2\"}''"

definition denied_answer :: Response where
  "denied_answer = answer 401 ''401 Unauthorized'' []"

definition token_answer :: Response where
  "token_answer = answer 200 ''200 OK'' ''{\"access_token\":\"at\",\"token_type\":\"Bearer\"}''"

definition grant_refused :: Response where
  "grant_refused = answer 400 ''400 Bad Request'' ''{\"error\":\"invalid_grant\"}''"

definition cookie_refused :: Response where
  "cookie_refused =
     answer 400 ''400 Bad Request'' ''{\"error\":\"invalid_grant\",\"code\":\"auth.token\"}''"

definition example_request :: Request where
  "example_request =
     \<lparr>Method = ''GET'', URL = ''https://www.crunchyroll.com/content/v1/x'', Header = [],
      Cookies = [], Form = []\<rparr>"

section \<open>Selection of the stream variant\<close>

lemma subtitleLoop_iff: "subtitleLoop subtitle ts = (\<exists>t\<in>set ts. Locale t = subtitle)"
  by (induction ts) auto

lemma streamLoop_find:
  "streamLoop hardsub subtitle streams =
     find (\<lambda>s. (hardsub \<and> HardsubLocale s = subtitle) \<or>
               (HardsubLocale s = [] \<and> subtitle = []) \<or>
               (\<not> hardsub \<and> subtitleLoop subtitle (Subtitles s))) streams"
  by (induction streams) auto

lemmas example_defs =
  stream_plain_def stream_soft_def stream_hard_de_def example_episode_def
  serveStreams_def serveFormats_def Streams_def streamsEndpoint_def afterStreamLoop_def elems_def

text \<open>
  C1, as the code has it. With \<^verbatim>\<open>hardsub\<close> false the loop of \<^verbatim>\<open>GetFormat\<close> stops at the
  first stream that has an empty hardsub locale while the requested subtitle locale is
  empty too, or that has a subtitle track of the requested locale; \<^verbatim>\<open>GetFormat\<close> goes on
  with that stream. For a requested locale that is not empty, this is the first stream
  with a subtitle track of that locale, whatever the hardsub locales are.
\<close>

theorem GetFormat_softsub_variant:
  "streamLoop False subtitle streams =
     find (\<lambda>s. (HardsubLocale s = [] \<and> subtitle = []) \<or>
               (\<exists>t\<in>set (Subtitles s). Locale t = subtitle)) streams \<and>
   (subtitle \<noteq> [] \<longrightarrow>
      streamLoop False subtitle streams =
        find (\<lambda>s. \<exists>t\<in>set (Subtitles s). Locale t = subtitle) streams) \<and>
   GetFormat fromVideoStreams Formats c ep resolution subtitle False sent =
     (case Streams fromVideoStreams c ep sent of
        (Panic, ep1, sent1) \<Rightarrow> (Panic, ep1, sent1)
      | (Err err, ep1, sent1) \<Rightarrow> (Err err, ep1, sent1)
      | (Ok ss, ep1, sent1) \<Rightarrow>
         (case afterStreamLoop Formats resolution
                 (find (\<lambda>s. (HardsubLocale s = [] \<and> subtitle = []) \<or>
                           (\<exists>t\<in>set (Subtitles s). Locale t = subtitle)) (elems ss)) sent1 of
            (r, sent2) \<Rightarrow> (r, ep1, sent2)))"
  by (simp add: streamLoop_find subtitleLoop_iff GetFormat_def split: prod.splits result.splits)

theorem GetFormat_softsub_variant_witness:
  "''en-US'' \<noteq> [] \<and>
   streamLoop False ''en-US'' [stream_plain, stream_hard_de, stream_soft] = Some stream_soft \<and>
   streamLoop False [] [stream_hard_de, stream_plain, stream_soft] = Some stream_plain \<and>
   fst (GetFormat (serveStreams [stream_plain, stream_hard_de, stream_soft])
          (serveFormats [''1280x720'']) example_session example_episode ''best'' ''en-US'' False [])
     = Ok \<lparr>Video_Resolution = ''1280x720'', format_meta = ''soft''\<rparr>"
  using GetFormat_softsub_variant [of "''en-US''" "[stream_plain, stream_hard_de, stream_soft]"
      "serveStreams [stream_plain, stream_hard_de, stream_soft]" "serveFormats [''1280x720'']"
      example_session example_episode "''best''" "[]"]
    GetFormat_softsub_variant [of "[]" "[stream_hard_de, stream_plain, stream_soft]"]
  by (simp add: example_defs)

text \<open>
  The claim as it was stated fails: with \<^verbatim>\<open>hardsub\<close> false and an empty requested locale,
  a stream without any subtitle track is selected, because its hardsub locale is empty.
\<close>

theorem GetFormat_softsub_counterexample:
  "fst (GetFormat (serveStreams [stream_plain, stream_soft]) (serveFormats [''1280x720''])
          example_session example_episode ''best'' [] False [])
     = Ok \<lparr>Video_Resolution = ''1280x720'', format_meta = stream_id stream_plain\<rparr> \<and>
   streamLoop False [] [stream_plain, stream_soft] = Some stream_plain \<and>
   Subtitles stream_plain = []"
  by (simp add: GetFormat_def example_defs)

text \<open>
  C8. With \<^verbatim>\<open>hardsub\<close> true the loop of \<^verbatim>\<open>GetFormat\<close> stops at the first stream whose
  hardsub locale equals the requested subtitle locale, or whose hardsub locale is empty
  when the requested one is empty too, and \<^verbatim>\<open>GetFormat\<close> goes on with that stream. A
  stream with an empty hardsub locale matches the empty request; streams with hardsub
  locale \<^verbatim>\<open>de-DE\<close> never match it.
\<close>

theorem GetFormat_hardsub_variant:
  "streamLoop True subtitle streams =
     find (\<lambda>s. HardsubLocale s = subtitle \<or> (HardsubLocale s = [] \<and> subtitle = [])) streams \<and>
   (HardsubLocale s = [] \<longrightarrow> streamLoop True [] (s # streams) = Some s) \<and>
   ((\<forall>s\<in>set streams. HardsubLocale s = ''de-DE'') \<longrightarrow> streamLoop True [] streams = None) \<and>
   GetFormat fromVideoStreams Formats c ep resolution subtitle True sent =
     (case Streams fromVideoStreams c ep sent of
        (Panic, ep1, sent1) \<Rightarrow> (Panic, ep1, sent1)
      | (Err err, ep1, sent1) \<Rightarrow> (Err err, ep1, sent1)
      | (Ok ss, ep1, sent1) \<Rightarrow>
         (case afterStreamLoop Formats resolution
                 (find (\<lambda>s. HardsubLocale s = subtitle \<or> (HardsubLocale s = [] \<and> subtitle = []))
                    (elems ss)) sent1 of
            (r, sent2) \<Rightarrow> (r, ep1, sent2)))"
proof -
  have 1: "streamLoop True sub xs =
     find (\<lambda>s. HardsubLocale s = sub \<or> (HardsubLocale s = [] \<and> sub = [])) xs" for sub xs
    by (simp add: streamLoop_find)
  have 2: "(\<forall>s\<in>set streams. HardsubLocale s = ''de-DE'') \<longrightarrow> streamLoop True [] streams = None"
    by (induction streams) auto
  have 3: "GetFormat fromVideoStreams Formats c ep resolution subtitle True sent =
     (case Streams fromVideoStreams c ep sent of
        (Panic, ep1, sent1) \<Rightarrow> (Panic, ep1, sent1)
      | (Err err, ep1, sent1) \<Rightarrow> (Err err, ep1, sent1)
      | (Ok ss, ep1, sent1) \<Rightarrow>
         (case afterStreamLoop Formats resolution
                 (find (\<lambda>s. HardsubLocale s = subtitle \<or> (HardsubLocale s = [] \<and> subtitle = []))
                    (elems ss)) sent1 of
            (r, sent2) \<Rightarrow> (r, ep1, sent2)))"
    by (simp add: 1 GetFormat_def split: prod.splits result.splits)
  show ?thesis using 1 2 3 by simp
qed

theorem GetFormat_hardsub_variant_witness:
  "HardsubLocale stream_plain = [] \<and>
   streamLoop True [] [stream_plain, stream_hard_de] = Some stream_plain \<and>
   streamLoop True [] [stream_hard_de, stream_hard_de] = None \<and>
   streamLoop True ''de-DE'' [stream_soft, stream_hard_de] = Some stream_hard_de \<and>
   fst (GetFormat (serveStreams [stream_soft, stream_hard_de]) (serveFormats [''1280x720''])
          example_session example_episode ''1280x720'' ''de-DE'' True [])
     = Ok \<lparr>Video_Resolution = ''1280x720'', format_meta = ''hard-de''\<rparr>"
  using GetFormat_hardsub_variant [of "[]" "[stream_hard_de]" stream_plain]
    GetFormat_hardsub_variant [of "[]" "[stream_hard_de, stream_hard_de]"]
    GetFormat_hardsub_variant [of "''de-DE''" "[stream_soft, stream_hard_de]" stream_plain
      "serveStreams [stream_soft, stream_hard_de]" "serveFormats [''1280x720'']"
      example_session example_episode "''1280x720''" "[]"]
  by (simp add: example_defs)


section \<open>Selection of the format\<close>

lemma cutAt_first:
  "c \<notin> set w \<Longrightarrow> cutAt c (w @ c # h) = Some (w, h)"
  by (induction w) auto

lemma cutAt_None: "(cutAt c s = None) = (c \<notin> set s)"
  by (induction s) (auto split: option.splits)

lemma splitRes_first:
  "CHR ''x'' \<notin> set w \<Longrightarrow> splitRes (w @ CHR ''x'' # h) = Some (Atoi w, Atoi h)"
  by (simp add: splitRes_def SplitN_x_2_def cutAt_first)

lemma splitRes_None: "(splitRes r = None) = (CHR ''x'' \<notin> set r)"
proof (cases "cutAt (CHR ''x'') r")
  case None
  then show ?thesis using cutAt_None [of "CHR ''x''" r] by (simp add: splitRes_def SplitN_x_2_def)
next
  case (Some ab)
  then show ?thesis using cutAt_None [of "CHR ''x''" r]
    by (cases ab) (simp add: splitRes_def SplitN_x_2_def)
qed

lemma addInt_exact: "minInt \<le> a + b \<Longrightarrow> a + b \<le> maxInt \<Longrightarrow> addInt a b = a + b"
  by (simp add: addInt_def minInt_def maxInt_def)

lemma best_ne: "CHR ''x'' \<in> set r \<Longrightarrow> r \<noteq> ''best'' \<and> r \<noteq> ''worst''"
  by auto

lemma formatLoop_best_run:
  "\<forall>f\<in>set fs. CHR ''x'' \<in> set (Video_Resolution f) \<Longrightarrow> CHR ''x'' \<in> set (Video_Resolution cur) \<Longrightarrow>
   formatLoop ''best'' (Some cur) fs = Ok (pickBest cur fs)"
proof (induction fs arbitrary: cur)
  case Nil
  then show ?case by simp
next
  case (Cons f fs)
  obtain x y where f: "splitRes (Video_Resolution f) = Some (x, y)"
    using Cons.prems(1) splitRes_None [of "Video_Resolution f"] by (cases "splitRes (Video_Resolution f)") auto
  obtain u v where c: "splitRes (Video_Resolution cur) = Some (u, v)"
    using Cons.prems(2) splitRes_None [of "Video_Resolution cur"] by (cases "splitRes (Video_Resolution cur)") auto
  have ne: "Video_Resolution f \<noteq> ''best''" using Cons.prems(1) best_ne by auto
  have ih: "formatLoop ''best'' (Some g) fs = Ok (pickBest g fs)" if "g = f \<or> g = cur" for g
    using Cons.IH [of g] Cons.prems that by auto
  show ?case using f c ne ih by (simp add: resKey_def)
qed

lemma formatLoop_worst_run:
  "\<forall>f\<in>set fs. CHR ''x'' \<in> set (Video_Resolution f) \<Longrightarrow> CHR ''x'' \<in> set (Video_Resolution cur) \<Longrightarrow>
   formatLoop ''worst'' (Some cur) fs = Ok (pickWorst cur fs)"
proof (induction fs arbitrary: cur)
  case Nil
  then show ?case by simp
next
  case (Cons f fs)
  obtain x y where f: "splitRes (Video_Resolution f) = Some (x, y)"
    using Cons.prems(1) splitRes_None [of "Video_Resolution f"] by (cases "splitRes (Video_Resolution f)") auto
  obtain u v where c: "splitRes (Video_Resolution cur) = Some (u, v)"
    using Cons.prems(2) splitRes_None [of "Video_Resolution cur"] by (cases "splitRes (Video_Resolution cur)") auto
  have ne: "Video_Resolution f \<noteq> ''worst''" using Cons.prems(1) best_ne by auto
  have ih: "formatLoop ''worst'' (Some g) fs = Ok (pickWorst g fs)" if "g = f \<or> g = cur" for g
    using Cons.IH [of g] Cons.prems that by auto
  show ?case using f c ne ih by (simp add: resKey_def)
qed

lemma pickBest_first_max:
  "\<exists>pre post. cur # fs = pre @ pickBest cur fs # post \<and>
     (\<forall>h\<in>set pre. resKey h < resKey (pickBest cur fs)) \<and>
     (\<forall>h\<in>set post. resKey h \<le> resKey (pickBest cur fs))"
proof (induction fs arbitrary: cur)
  case Nil
  show ?case by (intro exI [of _ "[]"]) simp
next
  case (Cons f fs)
  define cur' where "cur' = (if resKey f > resKey cur then f else cur)"
  define g where "g = pickBest cur' fs"
  have g: "pickBest cur (f # fs) = g" by (simp add: g_def cur'_def)
  obtain pre post where pp: "cur' # fs = pre @ g # post"
      "\<forall>h\<in>set pre. resKey h < resKey g" "\<forall>h\<in>set post. resKey h \<le> resKey g"
    using Cons.IH [of cur'] g_def by blast
  have le: "resKey cur \<le> resKey cur'" "resKey f \<le> resKey cur'" by (auto simp: cur'_def)
  show ?case
  proof (cases pre)
    case Nil
    then have eq: "g = cur'" "post = fs" using pp(1) by auto
    show ?thesis
    proof (cases "resKey f > resKey cur")
      case True
      then have "cur # f # fs = [cur] @ g # post" using eq by (simp add: cur'_def)
      moreover have "\<forall>h\<in>set [cur]. resKey h < resKey g" using True eq by (simp add: cur'_def)
      ultimately show ?thesis using pp(3) g by metis
    next
      case False
      then have "cur # f # fs = [] @ g # (f # post)" using eq by (simp add: cur'_def)
      moreover have "\<forall>h\<in>set (f # post). resKey h \<le> resKey g" using False eq pp(3) by (simp add: cur'_def)
      ultimately show ?thesis using g by (metis empty_iff empty_set)
    qed
  next
    case (Cons a pre')
    then have eq: "a = cur'" "fs = pre' @ g # post" using pp(1) by auto
    have lt: "resKey cur' < resKey g" using pp(2) Cons eq by simp
    have "cur # f # fs = (cur # f # pre') @ g # post" using eq by simp
    moreover have "\<forall>h\<in>set (cur # f # pre'). resKey h < resKey g"
      using pp(2) Cons le lt by auto
    ultimately show ?thesis using pp(3) g by metis
  qed
qed

lemma pickWorst_first_min:
  "\<exists>pre post. cur # fs = pre @ pickWorst cur fs # post \<and>
     (\<forall>h\<in>set pre. resKey h > resKey (pickWorst cur fs)) \<and>
     (\<forall>h\<in>set post. resKey h \<ge> resKey (pickWorst cur fs))"
proof (induction fs arbitrary: cur)
  case Nil
  show ?case by (intro exI [of _ "[]"]) simp
next
  case (Cons f fs)
  define cur' where "cur' = (if resKey f < resKey cur then f else cur)"
  define g where "g = pickWorst cur' fs"
  have g: "pickWorst cur (f # fs) = g" by (simp add: g_def cur'_def)
  obtain pre post where pp: "cur' # fs = pre @ g # post"
      "\<forall>h\<in>set pre. resKey h > resKey g" "\<forall>h\<in>set post. resKey h \<ge> resKey g"
    using Cons.IH [of cur'] g_def by blast
  have le: "resKey cur \<ge> resKey cur'" "resKey f \<ge> resKey cur'" by (auto simp: cur'_def)
  show ?case
  proof (cases pre)
    case Nil
    then have eq: "g = cur'" "post = fs" using pp(1) by auto
    show ?thesis
    proof (cases "resKey f < resKey cur")
      case True
      then have "cur # f # fs = [cur] @ g # post" using eq by (simp add: cur'_def)
      moreover have "\<forall>h\<in>set [cur]. resKey h > resKey g" using True eq by (simp add: cur'_def)
      ultimately show ?thesis using pp(3) g by metis
    next
      case False
      then have "cur # f # fs = [] @ g # (f # post)" using eq by (simp add: cur'_def)
      moreover have "\<forall>h\<in>set (f # post). resKey h \<ge> resKey g" using False eq pp(3) by (simp add: cur'_def)
      ultimately show ?thesis using g by (metis empty_iff empty_set)
    qed
  next
    case (Cons a pre')
    then have eq: "a = cur'" "fs = pre' @ g # post" using pp(1) by auto
    have lt: "resKey cur' > resKey g" using pp(2) Cons eq by simp
    have "cur # f # fs = (cur # f # pre') @ g # post" using eq by simp
    moreover have "\<forall>h\<in>set (cur # f # pre'). resKey h > resKey g"
      using pp(2) Cons le lt by auto
    ultimately show ?thesis using pp(3) g by metis
  qed
qed

lemmas res_eval = splitRes_def SplitN_x_2_def Atoi_def isDigit_def maxInt_def minInt_def addInt_def

text \<open>
  C7. For \<^verbatim>\<open>"best"\<close> and \<^verbatim>\<open>"worst"\<close> the loop of \<^verbatim>\<open>GetFormat\<close> splits a resolution at
  its first \<^verbatim>\<open>x\<close> into two integers and compares the sums (the Go sum, which is the
  mathematical one within the range of \<^verbatim>\<open>int\<close>). When every resolution has an \<^verbatim>\<open>x\<close>,
  the loop returns the first format of the list whose sum is the greatest (the least, for
  \<^verbatim>\<open>"worst"\<close>): the formats before it have strictly smaller (greater) sums, so a tie keeps
  the format seen first. On \<^verbatim>\<open>640x360\<close>, \<^verbatim>\<open>1280x720\<close>, \<^verbatim>\<open>1920x1080\<close> it returns the
  last for \<^verbatim>\<open>"best"\<close> and the first for \<^verbatim>\<open>"worst"\<close>.
\<close>

theorem GetFormat_best_worst:
  "(CHR ''x'' \<notin> set w \<longrightarrow> splitRes (w @ ''x'' @ h) = Some (Atoi w, Atoi h)) \<and>
   (splitRes (Video_Resolution f) = Some (x, y) \<longrightarrow> resKey f = addInt x y) \<and>
   (minInt \<le> x + y \<and> x + y \<le> maxInt \<longrightarrow> addInt x y = x + y) \<and>
   ((\<forall>f\<in>set (f0 # fs). CHR ''x'' \<in> set (Video_Resolution f)) \<longrightarrow>
      (\<exists>g pre post. formatLoop ''best'' None (f0 # fs) = Ok g \<and> f0 # fs = pre @ g # post \<and>
         (\<forall>h\<in>set pre. resKey h < resKey g) \<and> (\<forall>h\<in>set post. resKey h \<le> resKey g)) \<and>
      (\<exists>g pre post. formatLoop ''worst'' None (f0 # fs) = Ok g \<and> f0 # fs = pre @ g # post \<and>
         (\<forall>h\<in>set pre. resKey g < resKey h) \<and> (\<forall>h\<in>set post. resKey g \<le> resKey h))) \<and>
   formatLoop ''best'' None
     [\<lparr>Video_Resolution = ''640x360'', format_meta = a\<rparr>,
      \<lparr>Video_Resolution = ''1280x720'', format_meta = b\<rparr>,
      \<lparr>Video_Resolution = ''1920x1080'', format_meta = c\<rparr>] =
     Ok \<lparr>Video_Resolution = ''1920x1080'', format_meta = c\<rparr> \<and>
   formatLoop ''worst'' None
     [\<lparr>Video_Resolution = ''640x360'', format_meta = a\<rparr>,
      \<lparr>Video_Resolution = ''1280x720'', format_meta = b\<rparr>,
      \<lparr>Video_Resolution = ''1920x1080'', format_meta = c\<rparr>] =
     Ok \<lparr>Video_Resolution = ''640x360'', format_meta = a\<rparr>"
proof -
  have 1: "CHR ''x'' \<notin> set w \<longrightarrow> splitRes (w @ ''x'' @ h) = Some (Atoi w, Atoi h)"
    by (simp add: splitRes_first)
  have 2: "splitRes (Video_Resolution f) = Some (x, y) \<longrightarrow> resKey f = addInt x y"
    by (simp add: resKey_def)
  have 3: "minInt \<le> x + y \<and> x + y \<le> maxInt \<longrightarrow> addInt x y = x + y"
    by (simp add: addInt_exact)
  have 4: "(\<exists>g pre post. formatLoop ''best'' None (f0 # fs) = Ok g \<and> f0 # fs = pre @ g # post \<and>
         (\<forall>h\<in>set pre. resKey h < resKey g) \<and> (\<forall>h\<in>set post. resKey h \<le> resKey g))"
    if "\<forall>f\<in>set (f0 # fs). CHR ''x'' \<in> set (Video_Resolution f)"
    using that formatLoop_best_run [of fs f0] pickBest_first_max [of f0 fs] by auto
  have 5: "(\<exists>g pre post. formatLoop ''worst'' None (f0 # fs) = Ok g \<and> f0 # fs = pre @ g # post \<and>
         (\<forall>h\<in>set pre. resKey g < resKey h) \<and> (\<forall>h\<in>set post. resKey g \<le> resKey h))"
    if "\<forall>f\<in>set (f0 # fs). CHR ''x'' \<in> set (Video_Resolution f)"
    using that formatLoop_worst_run [of fs f0] pickWorst_first_min [of f0 fs] by auto
  have 6: "formatLoop ''best'' None
     [\<lparr>Video_Resolution = ''640x360'', format_meta = a\<rparr>,
      \<lparr>Video_Resolution = ''1280x720'', format_meta = b\<rparr>,
      \<lparr>Video_Resolution = ''1920x1080'', format_meta = c\<rparr>] =
     Ok \<lparr>Video_Resolution = ''1920x1080'', format_meta = c\<rparr>"
    by (simp add: res_eval)
  have 7: "formatLoop ''worst'' None
     [\<lparr>Video_Resolution = ''640x360'', format_meta = a\<rparr>,
      \<lparr>Video_Resolution = ''1280x720'', format_meta = b\<rparr>,
      \<lparr>Video_Resolution = ''1920x1080'', format_meta = c\<rparr>] =
     Ok \<lparr>Video_Resolution = ''640x360'', format_meta = a\<rparr>"
    by (simp add: res_eval)
  show ?thesis using 1 2 3 4 5 6 7 by blast
qed

theorem GetFormat_best_worst_witness:
  "CHR ''x'' \<notin> set ''1920'' \<and>
   splitRes (''1920'' @ ''x'' @ ''1080'') = Some (1920, 1080) \<and>
   resKey \<lparr>Video_Resolution = ''1920x1080'', format_meta = ''a''\<rparr> = 3000 \<and>
   minInt \<le> 1920 + 1080 \<and> 1920 + 1080 \<le> maxInt \<and> addInt 1920 1080 = 3000 \<and>
   formatLoop ''best'' None
     [\<lparr>Video_Resolution = ''640x360'', format_meta = ''a''\<rparr>,
      \<lparr>Video_Resolution = ''1920x1080'', format_meta = ''b''\<rparr>,
      \<lparr>Video_Resolution = ''1080x1920'', format_meta = ''c''\<rparr>] =
     Ok \<lparr>Video_Resolution = ''1920x1080'', format_meta = ''b''\<rparr> \<and>
   formatLoop ''worst'' None
     [\<lparr>Video_Resolution = ''640x360'', format_meta = ''a''\<rparr>,
      \<lparr>Video_Resolution = ''1920x1080'', format_meta = ''b''\<rparr>,
      \<lparr>Video_Resolution = ''360x640'', format_meta = ''c''\<rparr>] =
     Ok \<lparr>Video_Resolution = ''640x360'', format_meta = ''a''\<rparr>"
  using GetFormat_best_worst [of "''1920''" "''1080''"
      "\<lparr>Video_Resolution = ''1920x1080'', format_meta = ''a''\<rparr>" 1920 1080
      "\<lparr>Video_Resolution = ''640x360'', format_meta = ''a''\<rparr>"
      "[\<lparr>Video_Resolution = ''1920x1080'', format_meta = ''b''\<rparr>,
        \<lparr>Video_Resolution = ''1080x1920'', format_meta = ''c''\<rparr>]"]
  by (simp add: res_eval resKey_def)

lemma GetFormat_selected:
  "Streams fromVideoStreams c ep sent = (Ok ss, ep1, sent1) \<Longrightarrow>
   streamLoop hardsub subtitle (elems ss) = Some st \<Longrightarrow>
   Formats st sent1 = (Ok formats, sent2) \<Longrightarrow>
   GetFormat fromVideoStreams Formats c ep resolution subtitle hardsub sent =
     (formatLoop resolution None (elems formats), ep1, sent2)"
  by (simp add: GetFormat_def afterStreamLoop_def)

lemma formatLoop_exact_miss:
  "resolution \<noteq> ''best'' \<Longrightarrow> resolution \<noteq> ''worst'' \<Longrightarrow>
   \<forall>f\<in>set fs. Video_Resolution f \<noteq> resolution \<Longrightarrow>
   formatLoop resolution None fs = Err (Errorf ''no matching resolution found'')"
  by (induction fs) auto

lemma formatLoop_candidate_kept: "formatLoop resolution (Some cur) fs \<noteq> Err e"
  by (induction fs arbitrary: cur) (auto split: option.splits simp: Let_def)

lemma parsesRes_has_x: "parsesRes r \<Longrightarrow> CHR ''x'' \<in> set r"
  using cutAt_None [of "CHR ''x''" r] by (auto simp: parsesRes_def split: option.splits)

text \<open>
  C4, as the code has it. When a stream is selected and its format list is empty,
  \<^verbatim>\<open>GetFormat\<close> returns the error \<^verbatim>\<open>no matching resolution found\<close>, for an exact
  resolution as for \<^verbatim>\<open>"best"\<close> and \<^verbatim>\<open>"worst"\<close>. When no format's resolution parses as
  \<^verbatim>\<open>WIDTHxHEIGHT\<close> integers, it returns that error for an exact resolution that does
  parse. For \<^verbatim>\<open>"best"\<close> and \<^verbatim>\<open>"worst"\<close> on a list that is not empty it does not return
  that error: the first format becomes the running candidate unparsed.
\<close>

theorem GetFormat_no_resolution:
  assumes "Streams fromVideoStreams c ep sent = (Ok ss, ep1, sent1)"
    and "streamLoop hardsub subtitle (elems ss) = Some st"
    and "Formats st sent1 = (Ok formats, sent2)"
  shows
    "(elems formats = [] \<longrightarrow>
        GetFormat fromVideoStreams Formats c ep resolution subtitle hardsub sent =
          (Err (Errorf ''no matching resolution found''), ep1, sent2)) \<and>
     (parsesRes resolution \<and> (\<forall>f\<in>set (elems formats). \<not> parsesRes (Video_Resolution f)) \<longrightarrow>
        GetFormat fromVideoStreams Formats c ep resolution subtitle hardsub sent =
          (Err (Errorf ''no matching resolution found''), ep1, sent2)) \<and>
     ((resolution = ''best'' \<or> resolution = ''worst'') \<and> elems formats \<noteq> [] \<longrightarrow>
        fst (GetFormat fromVideoStreams Formats c ep resolution subtitle hardsub sent) \<noteq>
          Err (Errorf ''no matching resolution found''))"
proof -
  have g: "GetFormat fromVideoStreams Formats c ep resolution subtitle hardsub sent =
      (formatLoop resolution None (elems formats), ep1, sent2)"
    using assms by (rule GetFormat_selected)
  have 1: "elems formats = [] \<longrightarrow> formatLoop resolution None (elems formats) =
      Err (Errorf ''no matching resolution found'')"
    by simp
  have 2: "formatLoop resolution None (elems formats) =
      Err (Errorf ''no matching resolution found'')"
    if p: "parsesRes resolution" and m: "\<forall>f\<in>set (elems formats). \<not> parsesRes (Video_Resolution f)"
  proof -
    have "CHR ''x'' \<in> set resolution" using p by (rule parsesRes_has_x)
    then have "resolution \<noteq> ''best''" "resolution \<noteq> ''worst''" by auto
    moreover have "\<forall>f\<in>set (elems formats). Video_Resolution f \<noteq> resolution" using p m by auto
    ultimately show ?thesis by (rule formatLoop_exact_miss)
  qed
  have 3: "formatLoop resolution None (elems formats) \<noteq> Err (Errorf ''no matching resolution found'')"
    if r: "resolution = ''best'' \<or> resolution = ''worst''" and n: "elems formats \<noteq> []"
  proof -
    obtain f fs where "elems formats = f # fs" using n by (cases "elems formats") auto
    then show ?thesis using r formatLoop_candidate_kept [of resolution f fs] by auto
  qed
  show ?thesis using g 1 2 3 by simp
qed

lemmas parse_eval = parsesRes_def atoiOk_def isDigit_def maxInt_def minInt_def

theorem GetFormat_no_resolution_witness:
  "GetFormat (serveStreams [stream_soft]) (serveFormats []) example_session example_episode
      ''best'' ''en-US'' False [] =
     (Err (Errorf ''no matching resolution found''),
      example_episode\<lparr>Episode_children := Some [stream_soft]\<rparr>,
      snd (serveStreams [stream_soft] example_session
             ''https://www.crunchyroll.com/cms/v2/US/M2/crunchyroll/videos/S1/streams?locale=en-US&Signature=sig&Policy=pol&Key-Pair-Id=kp''
             [])) \<and>
   parsesRes ''1920x1080'' \<and> \<not> parsesRes ''abc'' \<and> \<not> parsesRes ''12y34'' \<and>
   fst (GetFormat (serveStreams [stream_soft]) (serveFormats [''abc'', ''12y34''])
          example_session example_episode ''1920x1080'' ''en-US'' False []) =
     Err (Errorf ''no matching resolution found'') \<and>
   fst (GetFormat (serveStreams [stream_soft]) (serveFormats [''abc''])
          example_session example_episode ''worst'' ''en-US'' False []) \<noteq>
     Err (Errorf ''no matching resolution found'')"
proof -
  let ?url = "''https://www.crunchyroll.com/cms/v2/US/M2/crunchyroll/videos/S1/streams?locale=en-US&Signature=sig&Policy=pol&Key-Pair-Id=kp''"
  let ?ep1 = "example_episode\<lparr>Episode_children := Some [stream_soft]\<rparr>"
  let ?sent1 = "snd (serveStreams [stream_soft] example_session ?url [])"
  have s: "Streams (serveStreams [stream_soft]) example_session example_episode [] =
      (Ok (Some [stream_soft]), ?ep1, ?sent1)"
    by (simp add: Streams_def streamsEndpoint_def serveStreams_def example_session_def
        example_episode_def)
  have l: "streamLoop False ''en-US'' (elems (Some [stream_soft])) = Some stream_soft"
    by (simp add: elems_def stream_soft_def)
  have f: "serveFormats rs stream_soft ?sent1 =
      (Ok (Some (map (\<lambda>r. \<lparr>Video_Resolution = r, format_meta = stream_id stream_soft\<rparr>) rs)), ?sent1)"
    for rs by (simp add: serveFormats_def)
  have p: "parsesRes ''1920x1080'' \<and> \<not> parsesRes ''abc'' \<and> \<not> parsesRes ''12y34''"
    by (simp add: parse_eval)
  show ?thesis
    using GetFormat_no_resolution [where Formats = "serveFormats []" and resolution = "''best''",
        OF s l f [of "[]"]]
      GetFormat_no_resolution [where Formats = "serveFormats [''abc'', ''12y34'']" and
        resolution = "''1920x1080''", OF s l f [of "[''abc'', ''12y34'']"]]
      GetFormat_no_resolution [where Formats = "serveFormats [''abc'']" and
        resolution = "''worst''", OF s l f [of "[''abc'']"]] p
    by (simp add: elems_def)
qed

text \<open>
  The claim as it was stated fails: for \<^verbatim>\<open>"best"\<close> and for \<^verbatim>\<open>"worst"\<close>, a list whose only
  format has a resolution that does not parse gives that format, not the error.
\<close>

theorem GetFormat_no_resolution_counterexample:
  "\<not> parsesRes ''abc'' \<and>
   fst (GetFormat (serveStreams [stream_soft]) (serveFormats [''abc''])
          example_session example_episode ''best'' ''en-US'' False []) =
     Ok \<lparr>Video_Resolution = ''abc'', format_meta = ''soft''\<rparr> \<and>
   fst (GetFormat (serveStreams [stream_soft]) (serveFormats [''abc''])
          example_session example_episode ''worst'' ''en-US'' False []) =
     Ok \<lparr>Video_Resolution = ''abc'', format_meta = ''soft''\<rparr>"
  by (simp add: GetFormat_def example_defs parse_eval)

section \<open>The transport normalizer\<close>

lemma request_Inr:
  "Do e sent req = Inr resp \<Longrightarrow> request e req sent = (classify e resp, sent @ [req])"
  by (simp add: request_def)

lemma classify_parsed:
  "Body resp \<noteq> [] \<Longrightarrow> Unmarshal e (Body resp) = Inr m \<Longrightarrow>
   classify e resp =
     (case lookup m ''error'' of
        Some val \<Rightarrow>
          (case asString (Some val) of
             Some errorAsString \<Rightarrow>
               (case asString (lookup m ''code'') of
                  Some code \<Rightarrow> Err (RequestError resp (errorAsString @ '' - '' @ code))
                | None \<Rightarrow> Err (RequestError resp errorAsString))
           | None \<Rightarrow>
               (if asBool (Some val) = Some True then
                  (case asString (lookup m ''message'') of
                     Some msg \<Rightarrow> Err (RequestError resp msg)
                   | None \<Rightarrow> statusCheck resp)
                else statusCheck resp))
      | None \<Rightarrow>
          (case lookup m ''code'' of
             Some c \<Rightarrow>
               (case asArray (lookup m ''context'') of
                  Some (first # rest) \<Rightarrow> contextError resp first
                | _ \<Rightarrow>
                   (case asString (lookup m ''message'') of
                      Some errMessage \<Rightarrow> Err (RequestError resp errMessage)
                    | None \<Rightarrow> statusCheck resp))
           | None \<Rightarrow> statusCheck resp))"
  by (simp add: classify_def)

lemma asString_Some: "(asString x = Some s) = (x = Some (JString s))"
  by (cases x rule: asString.cases) auto

lemma asArray_Some: "(asArray x = Some xs) = (x = Some (JArray xs))"
  by (cases x rule: asArray.cases) auto

lemma asBool_Some: "(asBool x = Some b) = (x = Some (JBool b))"
  by (cases x rule: asBool.cases) auto

lemma example_Do: "Do (example_env (always resp)) sent req = Inr resp"
  by (simp add: example_env_def always_def)

lemmas example_request_defs =
  example_env_def always_def answer_def Unmarshal_def example_parseJSON_def

text \<open>
  C10. When the body parses to an object whose \<^verbatim>\<open>"error"\<close> is the boolean true and
  which has no string \<^verbatim>\<open>"message"\<close>, and the status is below 400, \<^verbatim>\<open>request\<close> returns the
  response with a nil error, whatever else the object holds.
\<close>

theorem request_true_flag_ignored:
  assumes "Do e sent req = Inr resp" and "Body resp \<noteq> []"
    and "Unmarshal e (Body resp) = Inr (Some kv)"
    and "map_of kv ''error'' = Some (JBool True)"
    and "asString (map_of kv ''message'') = None"
    and "StatusCode resp < 400"
  shows "request e req sent = (Ok resp, sent @ [req])"
  using assms by (simp add: request_Inr classify_parsed lookup_def statusCheck_def)

theorem request_true_flag_ignored_witness:
  "request (example_env (always (answer 200 ''200 OK'' ''{\"error\":true,\"code\":\"bad_session\"}'')))
      example_request [] =
     (Ok (answer 200 ''200 OK'' ''{\"error\":true,\"code\":\"bad_session\"}''), [example_request])"
  using request_true_flag_ignored [of
      "example_env (always (answer 200 ''200 OK'' ''{\"error\":true,\"code\":\"bad_session\"}''))"
      "[]" example_request "answer 200 ''200 OK'' ''{\"error\":true,\"code\":\"bad_session\"}''"
      "[(''error'', JBool True), (''code'', JString ''bad_session'')]"]
  by (simp add: example_env_def always_def answer_def Unmarshal_def example_parseJSON_def)

text \<open>
  C5. On a response whose body parses, \<^verbatim>\<open>request\<close> returns a \<^verbatim>\<open>*RequestError\<close> with the
  documented message for each documented shape, in the order of the source: a string
  \<^verbatim>\<open>"error"\<close> with a string \<^verbatim>\<open>"code"\<close>; a string \<^verbatim>\<open>"error"\<close> alone; a true \<^verbatim>\<open>"error"\<close>
  with a string \<^verbatim>\<open>"message"\<close>; else (no key \<^verbatim>\<open>"error"\<close>) a \<^verbatim>\<open>"code"\<close> with a non-empty
  \<^verbatim>\<open>"context"\<close> whose first element carries the message, or else the code, and the
  field; else a \<^verbatim>\<open>"code"\<close> with a string \<^verbatim>\<open>"message"\<close>. When the body is empty or none
  of the shapes matches, and the status is at least 400, the message is the status
  line.
\<close>

theorem request_documented_messages:
  assumes d: "Do e sent req = Inr resp"
  shows
   "(Body resp \<noteq> [] \<and> Unmarshal e (Body resp) = Inr m \<and>
       lookup m ''error'' = Some (JString err) \<and> lookup m ''code'' = Some (JString code) \<longrightarrow>
       request e req sent = (Err (RequestError resp (err @ '' - '' @ code)), sent @ [req])) \<and>
    (Body resp \<noteq> [] \<and> Unmarshal e (Body resp) = Inr m \<and>
       lookup m ''error'' = Some (JString err) \<and> asString (lookup m ''code'') = None \<longrightarrow>
       request e req sent = (Err (RequestError resp err), sent @ [req])) \<and>
    (Body resp \<noteq> [] \<and> Unmarshal e (Body resp) = Inr m \<and>
       lookup m ''error'' = Some (JBool True) \<and> lookup m ''message'' = Some (JString msg) \<longrightarrow>
       request e req sent = (Err (RequestError resp msg), sent @ [req])) \<and>
    (Body resp \<noteq> [] \<and> Unmarshal e (Body resp) = Inr m \<and>
       lookup m ''error'' = None \<and> lookup m ''code'' = Some c \<and>
       lookup m ''context'' = Some (JArray (JObject errField # rest)) \<and>
       map_of errField ''message'' = Some (JString t) \<and>
       map_of errField ''field'' = Some (JString field) \<longrightarrow>
       request e req sent = (Err (RequestError resp (t @ '' - '' @ field)), sent @ [req])) \<and>
    (Body resp \<noteq> [] \<and> Unmarshal e (Body resp) = Inr m \<and>
       lookup m ''error'' = None \<and> lookup m ''code'' = Some c \<and>
       lookup m ''context'' = Some (JArray (JObject errField # rest)) \<and>
       asString (map_of errField ''message'') = None \<and>
       map_of errField ''code'' = Some (JString t) \<and>
       map_of errField ''field'' = Some (JString field) \<longrightarrow>
       request e req sent = (Err (RequestError resp (t @ '' - '' @ field)), sent @ [req])) \<and>
    (Body resp \<noteq> [] \<and> Unmarshal e (Body resp) = Inr m \<and>
       lookup m ''error'' = None \<and> lookup m ''code'' = Some c \<and> \<not> shapeCodeContext m \<and>
       lookup m ''message'' = Some (JString msg) \<longrightarrow>
       request e req sent = (Err (RequestError resp msg), sent @ [req])) \<and>
    ((Body resp = [] \<or>
        (Unmarshal e (Body resp) = Inr m \<and> \<not> shapeErrorString m \<and> \<not> shapeErrorFlag m \<and>
         \<not> shapeCodeContext m \<and> \<not> shapeCodeMessage m)) \<and>
       StatusCode resp \<ge> 400 \<longrightarrow>
       request e req sent = (Err (RequestError resp (Status resp)), sent @ [req]))"
proof -
  have r: "request e req sent = (classify e resp, sent @ [req])"
    using d by (rule request_Inr)
  have 1: "Body resp \<noteq> [] \<and> Unmarshal e (Body resp) = Inr m \<and>
       lookup m ''error'' = Some (JString err) \<and> lookup m ''code'' = Some (JString code) \<longrightarrow>
       request e req sent = (Err (RequestError resp (err @ '' - '' @ code)), sent @ [req])"
    by (simp add: r classify_parsed)
  have 2: "Body resp \<noteq> [] \<and> Unmarshal e (Body resp) = Inr m \<and>
       lookup m ''error'' = Some (JString err) \<and> asString (lookup m ''code'') = None \<longrightarrow>
       request e req sent = (Err (RequestError resp err), sent @ [req])"
    by (simp add: r classify_parsed)
  have 3: "Body resp \<noteq> [] \<and> Unmarshal e (Body resp) = Inr m \<and>
       lookup m ''error'' = Some (JBool True) \<and> lookup m ''message'' = Some (JString msg) \<longrightarrow>
       request e req sent = (Err (RequestError resp msg), sent @ [req])"
    by (simp add: r classify_parsed)
  have 4: "Body resp \<noteq> [] \<and> Unmarshal e (Body resp) = Inr m \<and>
       lookup m ''error'' = None \<and> lookup m ''code'' = Some c \<and>
       lookup m ''context'' = Some (JArray (JObject errField # rest)) \<and>
       map_of errField ''message'' = Some (JString t) \<and>
       map_of errField ''field'' = Some (JString field) \<longrightarrow>
       request e req sent = (Err (RequestError resp (t @ '' - '' @ field)), sent @ [req])"
    by (simp add: r classify_parsed contextError_def)
  have 5: "Body resp \<noteq> [] \<and> Unmarshal e (Body resp) = Inr m \<and>
       lookup m ''error'' = None \<and> lookup m ''code'' = Some c \<and>
       lookup m ''context'' = Some (JArray (JObject errField # rest)) \<and>
       asString (map_of errField ''message'') = None \<and>
       map_of errField ''code'' = Some (JString t) \<and>
       map_of errField ''field'' = Some (JString field) \<longrightarrow>
       request e req sent = (Err (RequestError resp (t @ '' - '' @ field)), sent @ [req])"
    by (simp add: r classify_parsed contextError_def)
  have 6: "Body resp \<noteq> [] \<and> Unmarshal e (Body resp) = Inr m \<and>
       lookup m ''error'' = None \<and> lookup m ''code'' = Some c \<and> \<not> shapeCodeContext m \<and>
       lookup m ''message'' = Some (JString msg) \<longrightarrow>
       request e req sent = (Err (RequestError resp msg), sent @ [req])"
  proof (cases "asArray (lookup m ''context'')")
    case None
    then show ?thesis by (simp add: r classify_parsed)
  next
    case (Some xs)
    show ?thesis
    proof (cases xs)
      case Nil
      then show ?thesis using Some by (simp add: r classify_parsed)
    next
      case (Cons x ys)
      then show ?thesis using Some by (auto simp: shapeCodeContext_def)
    qed
  qed
  have s: "classify e resp = statusCheck resp"
    if b: "Body resp \<noteq> []" and u: "Unmarshal e (Body resp) = Inr m"
      and n1: "\<not> shapeErrorString m" and n2: "\<not> shapeErrorFlag m"
      and n3: "\<not> shapeCodeContext m" and n4: "\<not> shapeCodeMessage m"
  proof (cases "lookup m ''error''")
    case None
    note e = None
    show ?thesis
    proof (cases "lookup m ''code''")
      case None
      then show ?thesis using b u e by (simp add: classify_parsed)
    next
      case (Some c)
      have m: "asString (lookup m ''message'') = None"
        using n4 e Some by (simp add: shapeCodeMessage_def)
      have "asArray (lookup m ''context'') = None \<or> asArray (lookup m ''context'') = Some []"
        using n3 e Some by (simp add: shapeCodeContext_def split: option.splits)
      then show ?thesis using b u e Some m by (auto simp: classify_parsed)
    qed
  next
    case (Some v)
    have a: "asString (Some v) = None"
      using n1 Some by (simp add: shapeErrorString_def)
    have "asBool (Some v) \<noteq> Some True \<or> asString (lookup m ''message'') = None"
      using n2 Some by (auto simp: shapeErrorFlag_def asBool_Some)
    then show ?thesis using b u Some a by (auto simp: classify_parsed)
  qed
  have 7: "(Body resp = [] \<or>
        (Unmarshal e (Body resp) = Inr m \<and> \<not> shapeErrorString m \<and> \<not> shapeErrorFlag m \<and>
         \<not> shapeCodeContext m \<and> \<not> shapeCodeMessage m)) \<and>
       StatusCode resp \<ge> 400 \<longrightarrow>
       request e req sent = (Err (RequestError resp (Status resp)), sent @ [req])"
  proof (cases "Body resp = []")
    case True
    then show ?thesis by (simp add: r classify_def statusCheck_def)
  next
    case False
    then show ?thesis using s by (auto simp: r statusCheck_def)
  qed
  show ?thesis by (intro conjI 1 2 3 4 5 6 7)
qed


theorem request_documented_messages_witness:
  "request (example_env (always (answer 400 ''400 Bad Request''
       ''{\"error\":\"invalid_grant\",\"code\":\"auth.token\"}''))) example_request [] =
     (Err (RequestError (answer 400 ''400 Bad Request''
        ''{\"error\":\"invalid_grant\",\"code\":\"auth.token\"}'') ''invalid_grant - auth.token''),
      [example_request]) \<and>
   request (example_env (always (answer 400 ''400 Bad Request''
       ''{\"error\":\"invalid_grant\"}''))) example_request [] =
     (Err (RequestError (answer 400 ''400 Bad Request'' ''{\"error\":\"invalid_grant\"}'')
        ''invalid_grant''), [example_request]) \<and>
   request (example_env (always (answer 200 ''200 OK''
       ''{\"error\":true,\"message\":\"bad session\"}''))) example_request [] =
     (Err (RequestError (answer 200 ''200 OK'' ''{\"error\":true,\"message\":\"bad session\"}'')
        ''bad session''), [example_request]) \<and>
   request (example_env (always (answer 400 ''400 Bad Request''
       ''{\"code\":\"invalid\",\"context\":[{\"message\":\"too short\",\"field\":\"title\"}]}'')))
       example_request [] =
     (Err (RequestError (answer 400 ''400 Bad Request''
        ''{\"code\":\"invalid\",\"context\":[{\"message\":\"too short\",\"field\":\"title\"}]}'')
        ''too short - title''), [example_request]) \<and>
   request (example_env (always (answer 400 ''400 Bad Request''
       ''{\"code\":\"invalid\",\"context\":[{\"code\":\"length\",\"field\":\"title\"}]}'')))
       example_request [] =
     (Err (RequestError (answer 400 ''400 Bad Request''
        ''{\"code\":\"invalid\",\"context\":[{\"code\":\"length\",\"field\":\"title\"}]}'')
        ''length - title''), [example_request]) \<and>
   request (example_env (always (answer 404 ''404 Not Found''
       ''{\"code\":\"not_found\",\"message\":\"no such series\"}''))) example_request [] =
     (Err (RequestError (answer 404 ''404 Not Found''
        ''{\"code\":\"not_found\",\"message\":\"no such series\"}'') ''no such series''),
      [example_request]) \<and>
   request (example_env (always (answer 404 ''404 Not Found'' ''{\"items\":[]}'')))
       example_request [] =
     (Err (RequestError (answer 404 ''404 Not Found'' ''{\"items\":[]}'') ''404 Not Found''),
      [example_request]) \<and>
   request (example_env (always (answer 500 ''500 Internal Server Error'' [])))
       example_request [] =
     (Err (RequestError (answer 500 ''500 Internal Server Error'' [])
        ''500 Internal Server Error''), [example_request])"
proof -
  note t = request_documented_messages [OF example_Do, where sent = "[]" and req = example_request]
  note ev = example_request_defs lookup_def shapeErrorString_def shapeErrorFlag_def
    shapeCodeContext_def shapeCodeMessage_def
  have 1: "request (example_env (always (answer 400 ''400 Bad Request''
       ''{\"error\":\"invalid_grant\",\"code\":\"auth.token\"}''))) example_request [] =
     (Err (RequestError (answer 400 ''400 Bad Request''
        ''{\"error\":\"invalid_grant\",\"code\":\"auth.token\"}'') ''invalid_grant - auth.token''),
      [example_request])"
    using t [where resp = "answer 400 ''400 Bad Request''
        ''{\"error\":\"invalid_grant\",\"code\":\"auth.token\"}''" and
      m = "Some [(''error'', JString ''invalid_grant''), (''code'', JString ''auth.token'')]" and
      err = "''invalid_grant''" and code = "''auth.token''"]
    by (simp add: ev)
  have 2: "request (example_env (always (answer 400 ''400 Bad Request''
       ''{\"error\":\"invalid_grant\"}''))) example_request [] =
     (Err (RequestError (answer 400 ''400 Bad Request'' ''{\"error\":\"invalid_grant\"}'')
        ''invalid_grant''), [example_request])"
    using t [where resp = "answer 400 ''400 Bad Request'' ''{\"error\":\"invalid_grant\"}''" and
      m = "Some [(''error'', JString ''invalid_grant'')]" and err = "''invalid_grant''"]
    by (simp add: ev)
  have 3: "request (example_env (always (answer 200 ''200 OK''
       ''{\"error\":true,\"message\":\"bad session\"}''))) example_request [] =
     (Err (RequestError (answer 200 ''200 OK'' ''{\"error\":true,\"message\":\"bad session\"}'')
        ''bad session''), [example_request])"
    using t [where resp = "answer 200 ''200 OK'' ''{\"error\":true,\"message\":\"bad session\"}''" and
      m = "Some [(''error'', JBool True), (''message'', JString ''bad session'')]" and
      msg = "''bad session''"]
    by (simp add: ev)
  have 4: "request (example_env (always (answer 400 ''400 Bad Request''
       ''{\"code\":\"invalid\",\"context\":[{\"message\":\"too short\",\"field\":\"title\"}]}'')))
       example_request [] =
     (Err (RequestError (answer 400 ''400 Bad Request''
        ''{\"code\":\"invalid\",\"context\":[{\"message\":\"too short\",\"field\":\"title\"}]}'')
        ''too short - title''), [example_request])"
    using t [where resp = "answer 400 ''400 Bad Request''
        ''{\"code\":\"invalid\",\"context\":[{\"message\":\"too short\",\"field\":\"title\"}]}''" and
      m = "Some [(''code'', JString ''invalid''),
               (''context'', JArray [JObject [(''message'', JString ''too short''),
                                                 (''field'', JString ''title'')]])]" and
      c = "JString ''invalid''" and
      errField = "[(''message'', JString ''too short''), (''field'', JString ''title'')]" and
      rest = "[]" and t = "''too short''" and field = "''title''"]
    by (simp add: ev)
  have 5: "request (example_env (always (answer 400 ''400 Bad Request''
       ''{\"code\":\"invalid\",\"context\":[{\"code\":\"length\",\"field\":\"title\"}]}'')))
       example_request [] =
     (Err (RequestError (answer 400 ''400 Bad Request''
        ''{\"code\":\"invalid\",\"context\":[{\"code\":\"length\",\"field\":\"title\"}]}'')
        ''length - title''), [example_request])"
    using t [where resp = "answer 400 ''400 Bad Request''
        ''{\"code\":\"invalid\",\"context\":[{\"code\":\"length\",\"field\":\"title\"}]}''" and
      m = "Some [(''code'', JString ''invalid''),
               (''context'', JArray [JObject [(''code'', JString ''length''),
                                                 (''field'', JString ''title'')]])]" and
      c = "JString ''invalid''" and
      errField = "[(''code'', JString ''length''), (''field'', JString ''title'')]" and
      rest = "[]" and t = "''length''" and field = "''title''"]
    by (simp add: ev)
  have 6: "request (example_env (always (answer 404 ''404 Not Found''
       ''{\"code\":\"not_found\",\"message\":\"no such series\"}''))) example_request [] =
     (Err (RequestError (answer 404 ''404 Not Found''
        ''{\"code\":\"not_found\",\"message\":\"no such series\"}'') ''no such series''),
      [example_request])"
    using t [where resp = "answer 404 ''404 Not Found''
        ''{\"code\":\"not_found\",\"message\":\"no such series\"}''" and
      m = "Some [(''code'', JString ''not_found''), (''message'', JString ''no such series'')]" and
      c = "JString ''not_found''" and msg = "''no such series''"]
    by (simp add: ev)
  have 7: "request (example_env (always (answer 404 ''404 Not Found'' ''{\"items\":[]}'')))
       example_request [] =
     (Err (RequestError (answer 404 ''404 Not Found'' ''{\"items\":[]}'') ''404 Not Found''),
      [example_request])"
    using t [where resp = "answer 404 ''404 Not Found'' ''{\"items\":[]}''" and
      m = "Some [(''items'', JArray [])]"]
    by (simp add: ev)
  have 8: "request (example_env (always (answer 500 ''500 Internal Server Error'' [])))
       example_request [] =
     (Err (RequestError (answer 500 ''500 Internal Server Error'' [])
        ''500 Internal Server Error''), [example_request])"
    using t [where resp = "answer 500 ''500 Internal Server Error'' []"]
    by (simp add: ev)
  show ?thesis by (intro conjI 1 2 3 4 5 6 7 8)
qed

text \<open>
  C2, at inputs where the code fails. A body with a \<^verbatim>\<open>"code"\<close> and a non-empty
  \<^verbatim>\<open>"context"\<close> whose first element is not an object, or is an object without a string
  \<^verbatim>\<open>"message"\<close> or \<^verbatim>\<open>"code"\<close>, or without a string \<^verbatim>\<open>"field"\<close>, makes \<^verbatim>\<open>request\<close> panic:
  the type assertions of that branch are of the single-value form.
\<close>

theorem request_panics_on_context:
  "request (example_env (always (answer 400 ''400 Bad Request'' ''{\"code\":\"invalid\",\"context\":[1]}'')))
      example_request [] = (Panic, [example_request]) \<and>
   request (example_env (always (answer 400 ''400 Bad Request''
      ''{\"code\":\"invalid\",\"context\":[{\"message\":\"too short\"}]}'')))
      example_request [] = (Panic, [example_request]) \<and>
   request (example_env (always (answer 400 ''400 Bad Request''
      ''{\"code\":\"invalid\",\"context\":[{\"field\":\"title\"}]}'')))
      example_request [] = (Panic, [example_request])"
  by (simp add: request_def classify_def contextError_def lookup_def
      example_env_def always_def answer_def Unmarshal_def example_parseJSON_def)


text \<open>
  What does hold of a body that is not empty and does not parse: \<^verbatim>\<open>request\<close> returns a
  \<^verbatim>\<open>*RequestError\<close> whose message starts with \<^verbatim>\<open>invalid json response\<close>, whatever the
  status.
\<close>

lemma request_malformed_body:
  "Do e sent req = Inr resp \<Longrightarrow> Body resp \<noteq> [] \<Longrightarrow> Unmarshal e (Body resp) = Inl msg \<Longrightarrow>
   request e req sent =
     (Err (RequestError resp (''invalid json response: '' @ msg)), sent @ [req])"
  by (simp add: request_def classify_def)

section \<open>The login\<close>

text \<open>
  C6. \<^verbatim>\<open>postLogin\<close> returns a session only when its three calls (index, account
  identity, profile) have all returned a response without an error, and the session then
  carries what the three bodies gave. When one of the calls returns an error,
  \<^verbatim>\<open>postLogin\<close> returns no session, and that error.
\<close>

theorem postLogin_all_or_nothing:
  "(Crunchyroll_request e (newSession loginResp lang) indexEndpoint ''GET'' sent = (Err err, sent1) \<longrightarrow>
      postLogin e loginResp lang sent = (Err err, sent1)) \<and>
   (Crunchyroll_request e (newSession loginResp lang) indexEndpoint ''GET'' sent = (Ok resp1, sent1) \<and>
    readIndex (Decode e (Body resp1) None) (newSession loginResp lang) = Some crunchy1 \<and>
    Crunchyroll_request e crunchy1 accountEndpoint ''GET'' sent1 = (Err err, sent2) \<longrightarrow>
      postLogin e loginResp lang sent = (Err err, sent2)) \<and>
   (Crunchyroll_request e (newSession loginResp lang) indexEndpoint ''GET'' sent = (Ok resp1, sent1) \<and>
    readIndex (Decode e (Body resp1) None) (newSession loginResp lang) = Some crunchy1 \<and>
    Crunchyroll_request e crunchy1 accountEndpoint ''GET'' sent1 = (Ok resp2, sent2) \<and>
    asString (lookup (Decode e (Body resp2) (Decode e (Body resp1) None)) ''external_id'') =
      Some externalID \<and>
    Crunchyroll_request e (crunchy1\<lparr>Config_ExternalID := externalID\<rparr>) profileEndpoint ''GET'' sent2 =
      (Err err, sent3) \<longrightarrow>
      postLogin e loginResp lang sent = (Err err, sent3)) \<and>
   (postLogin e loginResp lang sent = (Ok crunchy, sent') \<longrightarrow>
      (\<exists>r1 s1 c1 r2 s2 x r3 y.
         Crunchyroll_request e (newSession loginResp lang) indexEndpoint ''GET'' sent = (Ok r1, s1) \<and>
         readIndex (Decode e (Body r1) None) (newSession loginResp lang) = Some c1 \<and>
         Crunchyroll_request e c1 accountEndpoint ''GET'' s1 = (Ok r2, s2) \<and>
         asString (lookup (Decode e (Body r2) (Decode e (Body r1) None)) ''external_id'') = Some x \<and>
         Crunchyroll_request e (c1\<lparr>Config_ExternalID := x\<rparr>) profileEndpoint ''GET'' s2 =
           (Ok r3, sent') \<and>
         asString (lookup (Decode e (Body r3) (Decode e (Body r2) (Decode e (Body r1) None)))
            ''maturity_rating'') = Some y \<and>
         crunchy = c1\<lparr>Config_ExternalID := x, Config_MaturityRating := y\<rparr>))"
proof -
  have 1: "Crunchyroll_request e (newSession loginResp lang) indexEndpoint ''GET'' sent = (Err err, sent1) \<longrightarrow>
      postLogin e loginResp lang sent = (Err err, sent1)"
    by (simp add: postLogin_def)
  have 2: "Crunchyroll_request e (newSession loginResp lang) indexEndpoint ''GET'' sent = (Ok resp1, sent1) \<and>
    readIndex (Decode e (Body resp1) None) (newSession loginResp lang) = Some crunchy1 \<and>
    Crunchyroll_request e crunchy1 accountEndpoint ''GET'' sent1 = (Err err, sent2) \<longrightarrow>
      postLogin e loginResp lang sent = (Err err, sent2)"
    by (simp add: postLogin_def)
  have 3: "Crunchyroll_request e (newSession loginResp lang) indexEndpoint ''GET'' sent = (Ok resp1, sent1) \<and>
    readIndex (Decode e (Body resp1) None) (newSession loginResp lang) = Some crunchy1 \<and>
    Crunchyroll_request e crunchy1 accountEndpoint ''GET'' sent1 = (Ok resp2, sent2) \<and>
    asString (lookup (Decode e (Body resp2) (Decode e (Body resp1) None)) ''external_id'') =
      Some externalID \<and>
    Crunchyroll_request e (crunchy1\<lparr>Config_ExternalID := externalID\<rparr>) profileEndpoint ''GET'' sent2 =
      (Err err, sent3) \<longrightarrow>
      postLogin e loginResp lang sent = (Err err, sent3)"
    by (simp add: postLogin_def)
  have 4: "postLogin e loginResp lang sent = (Ok crunchy, sent') \<longrightarrow>
      (\<exists>r1 s1 c1 r2 s2 x r3 y.
         Crunchyroll_request e (newSession loginResp lang) indexEndpoint ''GET'' sent = (Ok r1, s1) \<and>
         readIndex (Decode e (Body r1) None) (newSession loginResp lang) = Some c1 \<and>
         Crunchyroll_request e c1 accountEndpoint ''GET'' s1 = (Ok r2, s2) \<and>
         asString (lookup (Decode e (Body r2) (Decode e (Body r1) None)) ''external_id'') = Some x \<and>
         Crunchyroll_request e (c1\<lparr>Config_ExternalID := x\<rparr>) profileEndpoint ''GET'' s2 =
           (Ok r3, sent') \<and>
         asString (lookup (Decode e (Body r3) (Decode e (Body r2) (Decode e (Body r1) None)))
            ''maturity_rating'') = Some y \<and>
         crunchy = c1\<lparr>Config_ExternalID := x, Config_MaturityRating := y\<rparr>)"
    unfolding postLogin_def Let_def
    by (auto split: prod.splits result.splits option.splits)
  show ?thesis by (intro conjI 1 2 3 4)
qed

lemmas login_eval =
  postLogin_def Crunchyroll_request_def requestFull_def request_def classify_def statusCheck_def
  NewRequest_def HeaderAdd_def newSession_def readIndex_def Decode_def lookup_def Unmarshal_def
  TrimPrefix_def HasSuffix_def example_env_def scripted_def example_parseJSON_def answer_def
  index_answer_def account_answer_def profile_answer_def denied_answer_def example_login_def

theorem postLogin_all_or_nothing_witness:
  "fst (postLogin (example_env (scripted [Inr index_answer, Inr account_answer, Inr profile_answer]))
          example_login ''en-US'' []) =
     Ok ((newSession example_login ''en-US'')
           \<lparr>Config_Bucket := ''US/M2/crunchyroll'', Config_Premium := True,
            Config_Policy := ''pol'', Config_Signature := ''sig'', Config_KeyPairID := ''kp'',
            Config_ExternalID := ''ext'', Config_MaturityRating := ''M2''\<rparr>) \<and>
   fst (postLogin (example_env (scripted [Inr denied_answer, Inr account_answer, Inr profile_answer]))
          example_login ''en-US'' []) = Err (RequestError denied_answer ''401 Unauthorized'') \<and>
   fst (postLogin (example_env (scripted [Inr index_answer, Inr denied_answer, Inr profile_answer]))
          example_login ''en-US'' []) = Err (RequestError denied_answer ''401 Unauthorized'') \<and>
   fst (postLogin (example_env (scripted [Inr index_answer, Inr account_answer, Inl ''timeout'']))
          example_login ''en-US'' []) = Err (TransportError ''timeout'')"
  using postLogin_all_or_nothing [of
      "example_env (scripted [Inr denied_answer, Inr account_answer, Inr profile_answer])"
      example_login "''en-US''" "[]"]
    postLogin_all_or_nothing [of
      "example_env (scripted [Inr index_answer, Inr denied_answer, Inr profile_answer])"
      example_login "''en-US''" "[]"]
  by (simp add: login_eval)

text \<open>
  \<^verbatim>\<open>LoginWithRefreshToken\<close> by the outcome of its first request: a \<^verbatim>\<open>*RequestError\<close> of
  status 400 is followed by one request with the grant \<^verbatim>\<open>etp_rt_cookie\<close>, the second
  \<^verbatim>\<open>Basic\<close> header and the cookie \<^verbatim>\<open>etp_rt\<close>, whose error, if any, is the one returned; a
  \<^verbatim>\<open>*RequestError\<close> of another status is returned as it is.
\<close>

lemma NewRequest_ok:
  "urlError e endpoint = None \<Longrightarrow>
   NewRequest e method endpoint form =
     Inr \<lparr>Method = method, URL = endpoint, Header = [], Cookies = [], Form = form\<rparr>"
  by (simp add: NewRequest_def)

lemma LoginWithRefreshToken_first:
  "urlError e tokenEndpoint = None \<Longrightarrow>
   LoginWithRefreshToken e refreshToken lang sent =
     (case request e (refreshRequest refreshToken) sent of
        (Panic, sent1) \<Rightarrow> (Panic, sent1)
      | (Ok resp, sent1) \<Rightarrow> postLogin e (decodeLogin e (Body resp)) lang sent1
      | (Err (RequestError r m), sent1) \<Rightarrow>
          (if StatusCode r = 400 then
             (case request e (fallbackRequest refreshToken) sent1 of
                (Panic, sent2) \<Rightarrow> (Panic, sent2)
              | (Err err2, sent2) \<Rightarrow> (Err err2, sent2)
              | (Ok resp2, sent2) \<Rightarrow> postLogin e (decodeLogin e (Body resp2)) lang sent2)
           else (Err (RequestError r m), sent1))
      | (Err (Errorf m), sent1) \<Rightarrow> (Panic, sent1)
      | (Err (TransportError m), sent1) \<Rightarrow> (Panic, sent1))"
  by (simp add: LoginWithRefreshToken_def NewRequest_ok refreshRequest_def fallbackRequest_def
      split: prod.splits result.splits error.splits)

lemma LoginWithRefreshToken_fallback:
  assumes "urlError e tokenEndpoint = None"
    and "request e (refreshRequest refreshToken) sent = (Err (RequestError r m), sent1)"
    and "StatusCode r = 400"
  shows "LoginWithRefreshToken e refreshToken lang sent =
     (case request e (fallbackRequest refreshToken) sent1 of
        (Panic, sent2) \<Rightarrow> (Panic, sent2)
      | (Err err2, sent2) \<Rightarrow> (Err err2, sent2)
      | (Ok resp2, sent2) \<Rightarrow> postLogin e (decodeLogin e (Body resp2)) lang sent2)"
  using assms by (simp add: LoginWithRefreshToken_first)

lemma LoginWithRefreshToken_no_fallback:
  assumes "urlError e tokenEndpoint = None"
    and "request e (refreshRequest refreshToken) sent = (Err (RequestError r m), sent1)"
    and "StatusCode r \<noteq> 400"
  shows "LoginWithRefreshToken e refreshToken lang sent = (Err (RequestError r m), sent1)"
  using assms by (simp add: LoginWithRefreshToken_first)

lemma fallbackRequest_shape:
  "Form (fallbackRequest tok) = [(''grant_type'', ''etp_rt_cookie''), (''scope'', ''offline_access'')] \<and>
   map_of (Header (fallbackRequest tok)) ''Authorization'' = Some basicB \<and>
   Cookies (fallbackRequest tok) = [(''etp_rt'', tok)] \<and> basicB \<noteq> basicA"
  by (simp add: fallbackRequest_def HeaderSet_def AddCookie_def basicA_def basicB_def)

lemmas refresh_eval =
  LoginWithRefreshToken_first login_eval refreshRequest_def fallbackRequest_def HeaderSet_def
  AddCookie_def tokenEndpoint_def token_answer_def grant_refused_def cookie_refused_def
  example_decodeLogin_def indexEndpoint_def accountEndpoint_def profileEndpoint_def

lemma LoginWithRefreshToken_fallback_examples:
  "fst (LoginWithRefreshToken
          (example_env (scripted [Inr grant_refused, Inr cookie_refused])) ''token'' ''en-US'' []) =
     Err (RequestError cookie_refused ''invalid_grant - auth.token'') \<and>
   snd (LoginWithRefreshToken
          (example_env (scripted [Inr grant_refused, Inr cookie_refused])) ''token'' ''en-US'' []) =
     [refreshRequest ''token'', fallbackRequest ''token'']"
  by (simp add: refresh_eval)

lemma LoginWithRefreshToken_fallback_success:
  "fst (LoginWithRefreshToken
          (example_env (scripted [Inr grant_refused, Inr token_answer, Inr index_answer,
             Inr account_answer, Inr profile_answer])) ''token'' ''en-US'' []) =
     Ok ((newSession (example_decodeLogin (Body token_answer)) ''en-US'')
           \<lparr>Config_Bucket := ''US/M2/crunchyroll'', Config_Premium := True,
            Config_Policy := ''pol'', Config_Signature := ''sig'', Config_KeyPairID := ''kp'',
            Config_ExternalID := ''ext'', Config_MaturityRating := ''M2''\<rparr>)"
  by (simp add: refresh_eval)

text \<open>
  C3, at an input where the code fails. When the first request fails in the transport
  (the client returns an error that is not a \<^verbatim>\<open>*RequestError\<close>), the single-value type
  assertion \<^verbatim>\<open>err.(*RequestError)\<close> panics: the error is not returned to the caller.
\<close>

theorem LoginWithRefreshToken_transport_failure:
  "LoginWithRefreshToken (example_env refuse) ''token'' ''en-US'' [] =
     (Panic, [refreshRequest ''token'']) \<and>
   request (example_env refuse) (refreshRequest ''token'') [] =
     (Err (TransportError ''dial tcp: connect: connection refused''), [refreshRequest ''token''])"
  by (simp add: LoginWithRefreshToken_first request_def example_env_def refuse_def)

section \<open>Caching of child lists\<close>

text \<open>
  C9, as the code has it. \<^verbatim>\<open>IsCaching\<close> returns the last value given to \<^verbatim>\<open>SetCaching\<close>.
  After \<^verbatim>\<open>SetCaching(false)\<close>, \<^verbatim>\<open>Streams\<close>, \<^verbatim>\<open>Seasons\<close> and \<^verbatim>\<open>MovieListing\<close> on an object
  whose child list is cached (not nil) still return that list, send nothing and leave
  the object as it is; on an object without a cached list they fetch, return what the
  fetch returns and leave the cache slot empty.
\<close>

theorem caching_disabled:
  "IsCaching (SetCaching caching c) = caching \<and>
   (Episode_children ep = Some streams \<longrightarrow>
      Streams fromVideoStreams (SetCaching False c) ep sent = (Ok (Some streams), ep, sent)) \<and>
   (Series_children s = Some seasons \<longrightarrow>
      Seasons e decodeSeason (SetCaching False c) s sent = (Ok (Some seasons), s, sent)) \<and>
   (Movie_children m = Some listings \<longrightarrow>
      MovieListing e decodeListing (SetCaching False c) m sent = (Ok (Some listings), m, sent)) \<and>
   (Episode_children ep = None \<longrightarrow>
      Streams fromVideoStreams (SetCaching False c) ep sent =
        (case fromVideoStreams (SetCaching False c) (streamsEndpoint (SetCaching False c) ep) sent of
           (r, sent1) \<Rightarrow> (r, ep, sent1))) \<and>
   (Series_children s = None \<longrightarrow>
      Seasons e decodeSeason (SetCaching False c) s sent =
        (case fetchItems e decodeSeason (SetCaching False c)
                (seasonsEndpoint (SetCaching False c) s) sent of
           (r, sent1) \<Rightarrow> (r, s, sent1))) \<and>
   (Movie_children m = None \<longrightarrow>
      MovieListing e decodeListing (SetCaching False c) m sent =
        (case fetchItems e decodeListing (SetCaching False c)
                (moviesEndpoint (SetCaching False c) m) sent of
           (r, sent1) \<Rightarrow> (r, m, sent1)))"
  by (simp add: IsCaching_def SetCaching_def Streams_def Seasons_def MovieListing_def
      split: prod.splits result.splits)

theorem caching_disabled_witness:
  "IsCaching (SetCaching False example_session) = False \<and>
   Streams (serveStreams [stream_soft]) (SetCaching False example_session)
      (example_episode\<lparr>Episode_children := Some [stream_plain]\<rparr>) [] =
     (Ok (Some [stream_plain]), example_episode\<lparr>Episode_children := Some [stream_plain]\<rparr>, []) \<and>
   fst (Streams (serveStreams [stream_soft]) (SetCaching False example_session) example_episode []) =
     Ok (Some [stream_soft]) \<and>
   fst (snd (Streams (serveStreams [stream_soft]) (SetCaching False example_session)
              example_episode [])) = example_episode \<and>
   fst (snd (Streams (serveStreams [stream_soft]) example_session example_episode [])) =
     example_episode\<lparr>Episode_children := Some [stream_soft]\<rparr> \<and>
   Seasons (example_env (always (answer 200 ''200 OK'' ''{\"items\":[]}''))) Inr
      (SetCaching False example_session) \<lparr>Series_ID = ''G1'', Series_children = Some [JNull]\<rparr> [] =
     (Ok (Some [JNull]), \<lparr>Series_ID = ''G1'', Series_children = Some [JNull]\<rparr>, []) \<and>
   fst (snd (MovieListing (example_env (always (answer 200 ''200 OK'' ''{\"items\":[]}''))) Inr
      (SetCaching False example_session) \<lparr>Movie_ID = ''G2'', Movie_children = None\<rparr> [])) =
     \<lparr>Movie_ID = ''G2'', Movie_children = None\<rparr>"
  using caching_disabled [of False example_session
      "example_episode\<lparr>Episode_children := Some [stream_plain]\<rparr>" "[stream_plain]"
      "serveStreams [stream_soft]" "[]"
      "\<lparr>Series_ID = ''G1'', Series_children = Some [JNull]\<rparr>" "[JNull]"
      "example_env (always (answer 200 ''200 OK'' ''{\"items\":[]}''))" Inr
      "\<lparr>Movie_ID = ''G2'', Movie_children = None\<rparr>" "[]" Inr]
    caching_disabled [of False example_session example_episode "[]" "serveStreams [stream_soft]" "[]"]
  by (simp add: IsCaching_def SetCaching_def Streams_def serveStreams_def example_episode_def
      example_session_def MovieListing_def fetchItems_def Crunchyroll_request_def requestFull_def
      request_def classify_def statusCheck_def NewRequest_def Decode_def lookup_def Unmarshal_def
      example_env_def always_def example_parseJSON_def answer_def)

text \<open>
  The claim as it was stated fails: with caching disabled, a call on an episode with a
  cached list does not go round the cache. It returns the cached list and sends no
  request, though the service would answer with another list.
\<close>

theorem caching_disabled_counterexample:
  "Streams (serveStreams [stream_soft]) (SetCaching False example_session)
      (example_episode\<lparr>Episode_children := Some [stream_plain]\<rparr>) [] =
     (Ok (Some [stream_plain]), example_episode\<lparr>Episode_children := Some [stream_plain]\<rparr>, []) \<and>
   fst (serveStreams [stream_soft] (SetCaching False example_session)
          (streamsEndpoint (SetCaching False example_session)
             (example_episode\<lparr>Episode_children := Some [stream_plain]\<rparr>)) []) =
     Ok (Some [stream_soft]) \<and>
   stream_soft \<noteq> stream_plain"
  by (simp add: Streams_def serveStreams_def example_episode_def stream_soft_def stream_plain_def)

end
